theory Spec2Isabelle
  imports Complex_Main
begin

section \<open>Data model\<close>

text \<open>
  The four relations of \<^verbatim>\<open>prisma/schema.prisma\<close> that the route handlers mutate.
  Identifiers are the uuid strings of the schema. Timestamps (\<^verbatim>\<open>DateTime\<close>) are the
  integer number of milliseconds since the epoch, which is what \<^verbatim>\<open>getTime()\<close> reads.
  The \<^verbatim>\<open>Decimal(10, 2)\<close> columns are integers counting hundredths; what the payment
  route computes on them after \<^verbatim>\<open>Number(...)\<close> is computed in binary64, as modelled
  below. The bookkeeping columns \<^verbatim>\<open>createdAt\<close>,
  \<^verbatim>\<open>updatedAt\<close> and \<^verbatim>\<open>dateAdded\<close> are never read by a handler and are left out.
  The field \<^verbatim>\<open>id\<close> of each model is prefixed with the model's initial, and
  \<^verbatim>\<open>Payment.customerId\<close> is \<open>payerId\<close>, since record fields share one name space.
\<close>

datatype Status = AVAILABLE | RENTED | MAINTENANCE

datatype PaymentMethod = CASH | MOBILE_MONEY | BANK_TRANSFER

record Battery =
  bId :: string
  serialNumber :: string
  price :: int
  status :: Status

record Customer =
  cId :: string
  name :: string
  phoneNumber :: string
  address :: string
  creditRating :: int

record Rental =
  rId :: string
  batteryId :: string
  customerId :: string
  rentDate :: int
  returnDate :: "int option"
  rentalPrice :: int
  isPaid :: bool

record Payment =
  pId :: string
  rentalId :: string
  payerId :: string
  amount :: int
  paymentDate :: int
  paymentMethod :: PaymentMethod

text \<open>The database: one list of rows per table, in insertion order.\<close>

record db =
  batteries :: "Battery list"
  customers :: "Customer list"
  rentals :: "Rental list"
  payments :: "Payment list"

definition empty_db :: db where
  "empty_db = \<lparr>batteries = [], customers = [], rentals = [], payments = []\<rparr>"

text \<open>
  A handler answers with \<^verbatim>\<open>res.status(code).json({ error: message })\<close> or with a payload.
  The specification's failure classes are read off the answer: NotFound is status 404,
  while Conflict and InvalidInput are both status 400 and differ in the message.
\<close>

datatype error = HttpError nat string

section \<open>Table access\<close>

text \<open>\<^verbatim>\<open>prisma.<model>.findUnique({ where: { id } })\<close>: the row with that key, or null.\<close>

definition findBattery :: "string \<Rightarrow> db \<Rightarrow> Battery option" where
  "findBattery i s = find (\<lambda>b. bId b = i) (batteries s)"

definition findCustomer :: "string \<Rightarrow> db \<Rightarrow> Customer option" where
  "findCustomer i s = find (\<lambda>c. cId c = i) (customers s)"

definition findRental :: "string \<Rightarrow> db \<Rightarrow> Rental option" where
  "findRental i s = find (\<lambda>r. rId r = i) (rentals s)"

text \<open>\<^verbatim>\<open>include: { payments: true }\<close> on a rental: the payments whose rentalId is the rental's id.\<close>

definition rentalPayments :: "db \<Rightarrow> Rental \<Rightarrow> Payment list" where
  "rentalPayments s r = filter (\<lambda>p. rentalId p = rId r) (payments s)"

text \<open>\<^verbatim>\<open>prisma.rental.findMany({ where: { customerId } })\<close>.\<close>

definition customerRentals :: "string \<Rightarrow> db \<Rightarrow> Rental list" where
  "customerRentals cid s = filter (\<lambda>r. customerId r = cid) (rentals s)"

text \<open>\<^verbatim>\<open>prisma.customer.update({ where: { id }, data: { creditRating } })\<close>.\<close>

definition setCreditRating :: "string \<Rightarrow> int \<Rightarrow> db \<Rightarrow> db" where
  "setCreditRating cid v s =
     s\<lparr>customers := map (\<lambda>c. if cId c = cid then c\<lparr>creditRating := v\<rparr> else c) (customers s)\<rparr>"

section \<open>Credit rating recomputation\<close>

text \<open>
  The body of the \<^verbatim>\<open>forEach\<close> callback of \<^verbatim>\<open>updateCustomerCreditRating\<close>
  (\<^verbatim>\<open>routes/rentals.ts\<close>, and the identical copy in the payments router): the points one
  rental adds to \<^verbatim>\<open>totalPoints\<close>. \<^verbatim>\<open>Math.floor\<close> of the quotient of two integers is
  \<open>div\<close> on \<open>int\<close>.
\<close>

definition addRentalPoints :: "db \<Rightarrow> Rental \<Rightarrow> int \<Rightarrow> int" where
  "addRentalPoints s rental totalPoints =
     (let totalPoints =
            (if isPaid rental then totalPoints + 2
             else if length (rentalPayments s rental) > 0 then totalPoints + 1
             else totalPoints)
      in case returnDate rental of
           None \<Rightarrow> totalPoints
         | Some d \<Rightarrow>
             (let rentDuration = (d - rentDate rental) div (1000 * 60 * 60 * 24)
              in if rentDuration \<le> 7 then totalPoints + 1 else totalPoints))"

text \<open>
  \<^verbatim>\<open>Math.round(x)\<close> is the integer nearest to \<open>x\<close>, a half rounded upwards. The
  quotient and the product that the recomputation rounds are taken exactly, as rationals.
\<close>

definition Math_round :: "rat \<Rightarrow> int" where
  "Math_round x = \<lfloor>x + 1 / 2\<rfloor>"

text \<open>
  \<^verbatim>\<open>updateCustomerCreditRating(customerId)\<close>. The function catches and logs every
  exception, so it always returns; the update of a customer row that does not exist
  throws in Prisma, is caught, and leaves the database as it was, which is what the
  \<open>map\<close> in \<open>setCreditRating\<close> does when no row has the key.
\<close>

definition updateCustomerCreditRating :: "string \<Rightarrow> db \<Rightarrow> db" where
  "updateCustomerCreditRating cid s =
     (let rs = customerRentals cid s;
          totalRentals = length rs
      in if totalRentals = 0 then s
         else
           (let totalPoints = fold (addRentalPoints s) rs 0;
                avgPoints = (of_int totalPoints :: rat) / of_int (int totalRentals * 3);
                rating = Math_round (avgPoints * 5)
            in setCreditRating cid rating s))"

section \<open>JavaScript numbers\<close>

text \<open>
  A JavaScript number is a binary64 value, here the rational it denotes. \<open>digits b n\<close> is
  the number of base \<open>b\<close> digits of a positive integer and \<open>ilog b x\<close> the integer
  logarithm of a positive rational: \<open>b powi (ilog b x) \<le> x < b powi (ilog b x + 1)\<close>.
\<close>

function digits :: "int \<Rightarrow> int \<Rightarrow> int" where
  "digits b n = (if n \<le> 0 \<or> b \<le> 1 then 0 else 1 + digits b (n div b))"
  by pat_completeness auto
termination
  by (relation "measure (\<lambda>(b, n). nat n)") (auto intro!: int_div_less_self)

definition ilog :: "int \<Rightarrow> rat \<Rightarrow> int" where
  "ilog b x =
     (let (p, q) = quotient_of x;
          d = digits b p - digits b q
      in if of_int b powi d \<le> x then d else d - 1)"

text \<open>Rounding to the nearest integer, a tie to the even one.\<close>

definition round_half_even :: "rat \<Rightarrow> int" where
  "round_half_even m =
     (let f = \<lfloor>m\<rfloor>; d = m - of_int f
      in if d < 1 / 2 then f else if 1 / 2 < d then f + 1 else if even f then f else f + 1)"

text \<open>
  The binary64 value nearest to a rational, ties to even: 53 significant bits, and below
  the normal range the fixed spacing of the subnormal numbers. It is what
  \<^verbatim>\<open>JSON.parse\<close> makes of a number in a request body, what \<^verbatim>\<open>Number(...)\<close> makes of a
  decimal value, and the result of one floating point operation on its exact result.
  Numbers beyond the largest finite binary64 value are not modelled.
\<close>

definition f64 :: "rat \<Rightarrow> rat" where
  "f64 x =
     (if x = 0 then 0
      else
        (let e = max (ilog 2 \<bar>x\<bar>) (- 1022);
             u = 2 powi (e - 52)
         in of_int (round_half_even (x / u)) * u))"

text \<open>\<^verbatim>\<open>Number(d)\<close> for the value \<open>d\<close> of a \<^verbatim>\<open>Decimal(10, 2)\<close> column, \<open>c\<close> hundredths.\<close>

definition Number_Decimal :: "int \<Rightarrow> rat" where
  "Number_Decimal c = f64 (of_int c / 100)"

text \<open>
  What a \<^verbatim>\<open>Decimal(10, 2)\<close> column stores, in hundredths, for a JavaScript number
  \<open>x\<close> within its ten digits: the number travels as its shortest decimal
  representation (the decimal with the fewest digits that reads back as \<open>x\<close>) and
  PostgreSQL rounds that to two places, a tie away from zero. If a decimal \<open>h\<close> ending
  in half a hundredth reads back as \<open>x\<close> it is the shortest representation and the tie
  rule applies; otherwise the representation rounds as \<open>x\<close> does.
\<close>

definition round_half_away :: "rat \<Rightarrow> int" where
  "round_half_away m = (if 0 \<le> m then \<lfloor>m + 1 / 2\<rfloor> else - \<lfloor>- m + 1 / 2\<rfloor>)"

definition toDecimal2 :: "rat \<Rightarrow> int" where
  "toDecimal2 x =
     (let k = \<lfloor>100 * x\<rfloor>;
          h = (of_int k + 1 / 2) / 100
      in if f64 h = x then round_half_away (100 * h) else round_half_away (100 * x))"

text \<open>
  \<^verbatim>\<open>parseInt(x)\<close> for a number \<open>x\<close> with an integer value: \<^verbatim>\<open>String(x)\<close> writes the
  digits of \<open>x\<close> when \<open>x\<close> is below \<open>10^21\<close> in magnitude and \<^verbatim>\<open>parseInt\<close> reads
  them back; from \<open>10^21\<close> on it writes the shortest representation in exponent notation
  (\<^verbatim>\<open>1e+21\<close>, \<^verbatim>\<open>1.5e+21\<close>) and \<^verbatim>\<open>parseInt\<close> reads its first digit. The first digit of the
  shortest representation is the first digit of \<open>x\<close>, unless the next one-digit decimal
  reads back as \<open>x\<close>.
\<close>

definition leadingDigit :: "rat \<Rightarrow> int" where
  "leadingDigit y =
     (let m = ilog 10 y;
          ld = \<lfloor>y / 10 powi m\<rfloor>
      in if f64 (of_int (ld + 1) * 10 powi m) = y then (if ld = 9 then 1 else ld + 1) else ld)"

definition parseInt :: "rat \<Rightarrow> int" where
  "parseInt x =
     (if \<bar>x\<bar> < 10 ^ 21 then (if 0 \<le> x then \<lfloor>x\<rfloor> else - \<lfloor>- x\<rfloor>)
      else if 0 < x then leadingDigit x else - leadingDigit (- x))"

text \<open>The range of a Prisma \<^verbatim>\<open>Int\<close> column, a signed 32-bit integer.\<close>

definition fitsInt32 :: "int \<Rightarrow> bool" where
  "fitsInt32 r = (- (2 ^ 31) \<le> r \<and> r \<le> 2 ^ 31 - 1)"

section \<open>Request bodies\<close>

text \<open>
  A field of a JSON request body is optional: \<open>None\<close> is \<^verbatim>\<open>undefined\<close>. Identifiers,
  names and serial numbers are strings, flags are booleans and enum fields are values of
  the enum. Prices and dates are numbers of hundredths and of milliseconds, and a rating
  is an integer number. The amount of a payment is the decimal number as the body writes
  it, which \<^verbatim>\<open>JSON.parse\<close> reads as the binary64 value \<open>f64\<close> of it. JavaScript's
  truthiness test, which the handlers use for "required": an absent field, the empty
  string and the number zero are falsy.
\<close>

definition truthy_str :: "string option \<Rightarrow> bool" where
  "truthy_str x = (case x of None \<Rightarrow> False | Some v \<Rightarrow> v \<noteq> [])"


section \<open>Inventory routes\<close>

text \<open>
  Every handler takes the database and returns its answer with the database it leaves.
  A key that \<^verbatim>\<open>@default(uuid())\<close> generates is the argument \<open>newId\<close>, and the clock
  (\<^verbatim>\<open>now()\<close>, \<^verbatim>\<open>new Date()\<close>) is the argument \<open>now\<close>. A Prisma call that throws (a
  primary key that is taken, an update of a row that is not there) is caught by the
  handler's \<^verbatim>\<open>catch\<close>, which answers 500; a transaction that throws is rolled back.
\<close>

text \<open>\<^verbatim>\<open>router.post('/')\<close> of the inventory router: add a battery.\<close>

definition createBattery ::
  "string \<Rightarrow> string option \<Rightarrow> int option \<Rightarrow> db \<Rightarrow> (error + Battery) \<times> db" where
  "createBattery newId serialNumber' price' s =
     (case (serialNumber', price') of
        (Some sn, Some p) \<Rightarrow>
          if sn = [] \<or> p = 0
          then (Inl (HttpError 400 ''Serial number and price are required''), s)
          else if find (\<lambda>b. serialNumber b = sn) (batteries s) \<noteq> None
          then (Inl (HttpError 400 ''Battery with this serial number already exists''), s)
          else if findBattery newId s \<noteq> None
          then (Inl (HttpError 500 ''Failed to create battery''), s)
          else
            (let newBattery =
                   \<lparr>bId = newId, serialNumber = sn, price = p, status = AVAILABLE\<rparr>
             in (Inr newBattery, s\<lparr>batteries := batteries s @ [newBattery]\<rparr>))
      | _ \<Rightarrow> (Inl (HttpError 400 ''Serial number and price are required''), s))"

text \<open>
  \<^verbatim>\<open>router.put('/:id')\<close> of the inventory router: each of serialNumber, price and status
  is written when it is truthy, the status as the caller gives it.
\<close>

definition updateBattery ::
  "string \<Rightarrow> string option \<Rightarrow> int option \<Rightarrow> Status option \<Rightarrow> db \<Rightarrow> (error + Battery) \<times> db"
  where
  "updateBattery i serialNumber' price' status' s =
     (case findBattery i s of
        None \<Rightarrow> (Inl (HttpError 404 ''Battery not found''), s)
      | Some existingBattery \<Rightarrow>
          if truthy_str serialNumber' \<and> serialNumber' \<noteq> Some (serialNumber existingBattery)
             \<and> find (\<lambda>b. Some (serialNumber b) = serialNumber') (batteries s) \<noteq> None
          then (Inl (HttpError 400 ''Battery with this serial number already exists''), s)
          else
            (let upd = (\<lambda>b. b\<lparr>serialNumber :=
                                (case serialNumber' of
                                   Some sn \<Rightarrow> if sn = [] then serialNumber b else sn
                                 | None \<Rightarrow> serialNumber b),
                              price :=
                                (case price' of
                                   Some p \<Rightarrow> if p = 0 then price b else p
                                 | None \<Rightarrow> price b),
                              status :=
                                (case status' of Some st \<Rightarrow> st | None \<Rightarrow> status b)\<rparr>)
             in (Inr (upd existingBattery),
                 s\<lparr>batteries := map (\<lambda>b. if bId b = i then upd b else b) (batteries s)\<rparr>)))"

text \<open>
  \<^verbatim>\<open>router.delete('/:id')\<close> of the inventory router: a battery with rental history is
  not deleted.
\<close>

definition deleteBattery :: "string \<Rightarrow> db \<Rightarrow> (error + string) \<times> db" where
  "deleteBattery i s =
     (case findBattery i s of
        None \<Rightarrow> (Inl (HttpError 404 ''Battery not found''), s)
      | Some existingBattery \<Rightarrow>
          if length (filter (\<lambda>r. batteryId r = i) (rentals s)) > 0
          then (Inl (HttpError 400 ''Cannot delete battery with rental history. Consider marking it as MAINTENANCE instead.''), s)
          else (Inr ''Battery deleted successfully'',
                s\<lparr>batteries := filter (\<lambda>b. bId b \<noteq> i) (batteries s)\<rparr>))"

section \<open>Customer routes\<close>

text \<open>\<^verbatim>\<open>router.post('/')\<close> of the customer router: the rating of a new customer is 3.\<close>

definition createCustomer ::
  "string \<Rightarrow> string option \<Rightarrow> string option \<Rightarrow> string option \<Rightarrow> db \<Rightarrow> (error + Customer) \<times> db"
  where
  "createCustomer newId name' phoneNumber' address' s =
     (case (name', phoneNumber') of
        (Some n, Some ph) \<Rightarrow>
          if n = [] \<or> ph = []
          then (Inl (HttpError 400 ''Name and phone number are required''), s)
          else if find (\<lambda>c. phoneNumber c = ph) (customers s) \<noteq> None
          then (Inl (HttpError 400 ''Customer with this phone number already exists''), s)
          else if findCustomer newId s \<noteq> None
          then (Inl (HttpError 500 ''Failed to create customer''), s)
          else
            (let newCustomer =
                   \<lparr>cId = newId, name = n, phoneNumber = ph,
                    address = (case address' of Some a \<Rightarrow> a | None \<Rightarrow> []),
                    creditRating = 3\<rparr>
             in (Inr newCustomer, s\<lparr>customers := customers s @ [newCustomer]\<rparr>))
      | _ \<Rightarrow> (Inl (HttpError 400 ''Name and phone number are required''), s))"

text \<open>
  \<^verbatim>\<open>router.put('/:id')\<close> of the customer router: name and phoneNumber are written when
  truthy, address and creditRating when they are not \<^verbatim>\<open>undefined\<close>; the rating written
  is \<^verbatim>\<open>parseInt(creditRating)\<close>. The column is an \<^verbatim>\<open>Int\<close>: for a value outside 32 bits
  the update throws and the handler answers 500 with nothing written.
\<close>

definition updateCustomer ::
  "string \<Rightarrow> string option \<Rightarrow> string option \<Rightarrow> string option \<Rightarrow> int option \<Rightarrow> db
     \<Rightarrow> (error + Customer) \<times> db" where
  "updateCustomer i name' phoneNumber' address' creditRating' s =
     (case findCustomer i s of
        None \<Rightarrow> (Inl (HttpError 404 ''Customer not found''), s)
      | Some existingCustomer \<Rightarrow>
          if truthy_str phoneNumber' \<and> phoneNumber' \<noteq> Some (phoneNumber existingCustomer)
             \<and> find (\<lambda>c. Some (phoneNumber c) = phoneNumber') (customers s) \<noteq> None
          then (Inl (HttpError 400 ''Customer with this phone number already exists''), s)
          else if (case creditRating' of
                     Some v \<Rightarrow> \<not> fitsInt32 (parseInt (f64 (of_int v)))
                   | None \<Rightarrow> False)
          then (Inl (HttpError 500 ''Failed to update customer''), s)
          else
            (let upd = (\<lambda>c. c\<lparr>name :=
                                (case name' of
                                   Some n \<Rightarrow> if n = [] then name c else n
                                 | None \<Rightarrow> name c),
                              phoneNumber :=
                                (case phoneNumber' of
                                   Some ph \<Rightarrow> if ph = [] then phoneNumber c else ph
                                 | None \<Rightarrow> phoneNumber c),
                              address :=
                                (case address' of Some a \<Rightarrow> a | None \<Rightarrow> address c),
                              creditRating :=
                                (case creditRating' of
                                   Some v \<Rightarrow> parseInt (f64 (of_int v))
                                 | None \<Rightarrow> creditRating c)\<rparr>)
             in (Inr (upd existingCustomer),
                 s\<lparr>customers := map (\<lambda>c. if cId c = i then upd c else c) (customers s)\<rparr>)))"

text \<open>
  \<^verbatim>\<open>router.delete('/:id')\<close> of the customer router: a customer with rentals or payments
  is not deleted.
\<close>

definition deleteCustomer :: "string \<Rightarrow> db \<Rightarrow> (error + string) \<times> db" where
  "deleteCustomer i s =
     (case findCustomer i s of
        None \<Rightarrow> (Inl (HttpError 404 ''Customer not found''), s)
      | Some existingCustomer \<Rightarrow>
          if length (customerRentals i s) > 0
             \<or> length (filter (\<lambda>p. payerId p = i) (payments s)) > 0
          then (Inl (HttpError 400 ''Cannot delete customer with rental or payment history.''), s)
          else (Inr ''Customer deleted successfully'',
                s\<lparr>customers := filter (\<lambda>c. cId c \<noteq> i) (customers s)\<rparr>))"

section \<open>Rental routes\<close>

text \<open>
  \<^verbatim>\<open>router.post('/')\<close> of the rental router: rent a battery. The checks run in the
  order of the source; the transaction inserts the rental (rentDate and returnDate take
  the schema's defaults, now and null) and sets the battery's status to RENTED.
\<close>

definition createRental ::
  "string \<Rightarrow> int \<Rightarrow> string option \<Rightarrow> string option \<Rightarrow> int option \<Rightarrow> bool option \<Rightarrow> db
     \<Rightarrow> (error + Rental) \<times> db" where
  "createRental newId now batteryId' customerId' rentalPrice' isPaid' s =
     (case (batteryId', customerId', rentalPrice') of
        (Some bid, Some cid, Some p) \<Rightarrow>
          if bid = [] \<or> cid = [] \<or> p = 0
          then (Inl (HttpError 400 ''Battery ID, customer ID, and rental price are required''), s)
          else
            (case findBattery bid s of
               None \<Rightarrow> (Inl (HttpError 404 ''Battery not found''), s)
             | Some battery \<Rightarrow>
                 if status battery \<noteq> AVAILABLE
                 then (Inl (HttpError 400 ''Battery is not available for rent''), s)
                 else
                   (case findCustomer cid s of
                      None \<Rightarrow> (Inl (HttpError 404 ''Customer not found''), s)
                    | Some customer \<Rightarrow>
                        if findRental newId s \<noteq> None
                        then (Inl (HttpError 500 ''Failed to create rental''), s)
                        else
                          (let rental =
                                 \<lparr>rId = newId, batteryId = bid, customerId = cid,
                                  rentDate = now, returnDate = None, rentalPrice = p,
                                  isPaid = (case isPaid' of Some b \<Rightarrow> b | None \<Rightarrow> False)\<rparr>
                           in (Inr rental,
                               s\<lparr>rentals := rentals s @ [rental],
                                 batteries :=
                                   map (\<lambda>b. if bId b = bid then b\<lparr>status := RENTED\<rparr> else b)
                                     (batteries s)\<rparr>))))
      | _ \<Rightarrow> (Inl (HttpError 400 ''Battery ID, customer ID, and rental price are required''), s))"

text \<open>
  \<^verbatim>\<open>router.put('/:id/return')\<close>: return a battery. A stored returnDate is a
  \<^verbatim>\<open>Date\<close> object, which is truthy whatever its value, so \<^verbatim>\<open>if (rental.returnDate)\<close>
  tests for non-null. The transaction closes the rental and sets the battery's status to
  AVAILABLE; the rating of the rental's customer is recomputed after it.
\<close>

definition returnBattery ::
  "int \<Rightarrow> string \<Rightarrow> int option \<Rightarrow> bool option \<Rightarrow> db \<Rightarrow> (error + Rental) \<times> db" where
  "returnBattery now i returnDate' isPaid' s =
     (case findRental i s of
        None \<Rightarrow> (Inl (HttpError 404 ''Rental not found''), s)
      | Some rental \<Rightarrow>
          (case returnDate rental of
             Some d \<Rightarrow> (Inl (HttpError 400 ''Battery has already been returned''), s)
           | None \<Rightarrow>
               (case findBattery (batteryId rental) s of
                  None \<Rightarrow> (Inl (HttpError 500 ''Failed to return battery''), s)
                | Some battery \<Rightarrow>
                    (let upd = (\<lambda>r. r\<lparr>returnDate :=
                                        Some (case returnDate' of
                                                Some d \<Rightarrow> if d = 0 then now else d
                                              | None \<Rightarrow> now),
                                      isPaid :=
                                        (case isPaid' of
                                           Some b \<Rightarrow> b
                                         | None \<Rightarrow> isPaid rental)\<rparr>);
                         s1 = s\<lparr>rentals := map (\<lambda>r. if rId r = i then upd r else r) (rentals s),
                                batteries :=
                                  map (\<lambda>b. if bId b = batteryId rental
                                            then b\<lparr>status := AVAILABLE\<rparr> else b)
                                    (batteries s)\<rparr>
                     in (Inr (upd rental),
                         updateCustomerCreditRating (customerId rental) s1)))))"

text \<open>
  \<^verbatim>\<open>router.put('/:id/payment')\<close>: set the payment status of a rental to the flag the
  caller gives, then recompute the rating of the rental's customer.
\<close>

definition updateRentalPayment ::
  "string \<Rightarrow> bool option \<Rightarrow> db \<Rightarrow> (error + Rental) \<times> db" where
  "updateRentalPayment i isPaid' s =
     (case isPaid' of
        None \<Rightarrow> (Inl (HttpError 400 ''Payment status is required''), s)
      | Some b \<Rightarrow>
          (case findRental i s of
             None \<Rightarrow> (Inl (HttpError 404 ''Rental not found''), s)
           | Some rental \<Rightarrow>
               (let s1 = s\<lparr>rentals :=
                             map (\<lambda>r. if rId r = i then r\<lparr>isPaid := b\<rparr> else r) (rentals s)\<rparr>
                in (Inr (rental\<lparr>isPaid := b\<rparr>),
                    updateCustomerCreditRating (customerId rental) s1))))"

section \<open>Payment routes\<close>

text \<open>
  \<^verbatim>\<open>rental.payments.reduce((sum, payment) => sum + Number(payment.amount), 0)\<close>: each
  addition is a binary64 addition.
\<close>

definition totalPaid :: "Payment list \<Rightarrow> rat" where
  "totalPaid ps = foldl (\<lambda>sum payment. f64 (sum + Number_Decimal (amount payment))) 0 ps"

text \<open>
  \<^verbatim>\<open>router.post('/')\<close> of the payment router: record a payment. \<open>x\<close> is the number
  \<^verbatim>\<open>amount\<close> of the parsed body. The total paid with this payment adds \<^verbatim>\<open>Number(amount)\<close>,
  the number itself, and is compared with \<^verbatim>\<open>Number(rental.rentalPrice)\<close>. The
  transaction inserts the payment, whose amount the column rounds to two places, and, when
  the total reaches the rental price, sets the rental's isPaid to true; the rating of the
  paying customer is recomputed after it. An amount of more than the ten digits of the
  column is not modelled.
\<close>

definition createPayment ::
  "string \<Rightarrow> int \<Rightarrow> string option \<Rightarrow> string option \<Rightarrow> rat option \<Rightarrow> PaymentMethod option \<Rightarrow> db
     \<Rightarrow> (error + Payment) \<times> db" where
  "createPayment newId now rentalId' customerId' amount' paymentMethod' s =
     (case (rentalId', customerId', amount', paymentMethod') of
        (Some rid, Some cid, Some a, Some m) \<Rightarrow>
          (let x = f64 a
           in if rid = [] \<or> cid = [] \<or> x = 0
              then (Inl (HttpError 400
                      ''Rental ID, customer ID, amount, and payment method are required''), s)
              else
                (case findRental rid s of
                   None \<Rightarrow> (Inl (HttpError 404 ''Rental not found''), s)
                 | Some rental \<Rightarrow>
                     (case findCustomer cid s of
                        None \<Rightarrow> (Inl (HttpError 404 ''Customer not found''), s)
                      | Some customer \<Rightarrow>
                          if customerId rental \<noteq> cid
                          then (Inl (HttpError 400 ''Customer ID does not match the rental''), s)
                          else
                            (let totalPaidSoFar = totalPaid (rentalPayments s rental);
                                 newTotalPaid = f64 (totalPaidSoFar + x);
                                 price = Number_Decimal (rentalPrice rental)
                             in if find (\<lambda>p. pId p = newId) (payments s) \<noteq> None
                                then (Inl (HttpError 500 ''Failed to create payment''), s)
                                else
                                  (let payment =
                                         \<lparr>pId = newId, rentalId = rid, payerId = cid,
                                          amount = toDecimal2 x, paymentDate = now,
                                          paymentMethod = m\<rparr>;
                                       s1 = s\<lparr>payments := payments s @ [payment]\<rparr>;
                                       s2 = (if newTotalPaid \<ge> price
                                             then s1\<lparr>rentals :=
                                                      map (\<lambda>r. if rId r = rid
                                                                then r\<lparr>isPaid := True\<rparr> else r)
                                                        (rentals s1)\<rparr>
                                             else s1)
                                   in (Inr payment, updateCustomerCreditRating cid s2))))))
      | _ \<Rightarrow> (Inl (HttpError 400
                 ''Rental ID, customer ID, amount, and payment method are required''), s))"

section \<open>Runs of the service\<close>

text \<open>
  The mutating requests of the inventory, customer, rental and payment routers, each with
  what the environment supplies to it (a fresh key, the clock). The user router writes
  only the users table, which no other route reads, and the remaining routes are reads.
\<close>

datatype request =
    CreateBattery string "string option" "int option"
  | UpdateBattery string "string option" "int option" "Status option"
  | DeleteBattery string
  | CreateCustomer string "string option" "string option" "string option"
  | UpdateCustomer string "string option" "string option" "string option" "int option"
  | DeleteCustomer string
  | CreateRental string int "string option" "string option" "int option" "bool option"
  | ReturnBattery int string "int option" "bool option"
  | UpdateRentalPayment string "bool option"
  | CreatePayment string int "string option" "string option" "rat option" "PaymentMethod option"

text \<open>The database a request leaves.\<close>

fun handle :: "request \<Rightarrow> db \<Rightarrow> db" where
  "handle (CreateBattery newId sn p) s = snd (createBattery newId sn p s)"
| "handle (UpdateBattery i sn p st) s = snd (updateBattery i sn p st s)"
| "handle (DeleteBattery i) s = snd (deleteBattery i s)"
| "handle (CreateCustomer newId n ph a) s = snd (createCustomer newId n ph a s)"
| "handle (UpdateCustomer i n ph a cr) s = snd (updateCustomer i n ph a cr s)"
| "handle (DeleteCustomer i) s = snd (deleteCustomer i s)"
| "handle (CreateRental newId now b c p ip) s = snd (createRental newId now b c p ip s)"
| "handle (ReturnBattery now i rd ip) s = snd (returnBattery now i rd ip s)"
| "handle (UpdateRentalPayment i ip) s = snd (updateRentalPayment i ip s)"
| "handle (CreatePayment newId now r c a m) s = snd (createPayment newId now r c a m s)"

text \<open>
  A run: the requests are served one after the other, starting from the empty database.
  The reachable states are the values of \<open>run\<close>.
\<close>

definition run :: "request list \<Rightarrow> db" where
  "run rqs = fold handle rqs empty_db"

section \<open>Predicates on states and runs\<close>

text \<open>
  The availability invariant of the specification: a battery is RENTED exactly when a
  rental that references it is open (has no returnDate).
\<close>

definition hasOpenRental :: "string \<Rightarrow> db \<Rightarrow> bool" where
  "hasOpenRental bid s = (\<exists>r\<in>set (rentals s). batteryId r = bid \<and> returnDate r = None)"

definition rented_iff_open :: "db \<Rightarrow> bool" where
  "rented_iff_open s = (\<forall>b\<in>set (batteries s). (status b = RENTED) = hasOpenRental (bId b) s)"

text \<open>The requests that write a caller-supplied status, and a caller-supplied rating.\<close>

fun sets_status :: "request \<Rightarrow> bool" where
  "sets_status (UpdateBattery i sn p st) = (st \<noteq> None)"
| "sets_status _ = False"

text \<open>
  A battery update that supplies a status agrees with the rentals when it supplies RENTED
  for a battery that has an open rental and another status for a battery that has none.
  In a consistent run every request agrees with the rentals of the state it is served in.
\<close>

fun status_consistent :: "request \<Rightarrow> db \<Rightarrow> bool" where
  "status_consistent (UpdateBattery i sn p (Some st)) s = ((st = RENTED) = hasOpenRental i s)"
| "status_consistent _ s = True"

fun consistent_run :: "request list \<Rightarrow> db \<Rightarrow> bool" where
  "consistent_run [] s = True"
| "consistent_run (rq # rqs) s = (status_consistent rq s \<and> consistent_run rqs (handle rq s))"

fun sets_rating :: "request \<Rightarrow> bool" where
  "sets_rating (UpdateCustomer i n ph a cr) = (cr \<noteq> None)"
| "sets_rating _ = False"


text \<open>
  What the run invariant needs besides the availability invariant itself: rental keys are
  unique, every rental references a battery of the inventory, and the open rentals of
  one battery have one key.
\<close>

definition ids_distinct :: "Rental list \<Rightarrow> bool" where
  "ids_distinct rs = distinct (map rId rs)"

definition refs_ok :: "Battery list \<Rightarrow> Rental list \<Rightarrow> bool" where
  "refs_ok bs rs = (\<forall>r\<in>set rs. batteryId r \<in> bId ` set bs)"

definition is_open :: "string \<Rightarrow> Rental \<Rightarrow> bool" where
  "is_open bid r = (batteryId r = bid \<and> returnDate r = None)"

definition one_open :: "Rental list \<Rightarrow> bool" where
  "one_open rs = (\<forall>r1\<in>set rs. \<forall>r2\<in>set rs.
      is_open (batteryId r1) r1 \<and> is_open (batteryId r1) r2 \<longrightarrow> rId r1 = rId r2)"

definition status_ok :: "Battery list \<Rightarrow> Rental list \<Rightarrow> bool" where
  "status_ok bs rs = (\<forall>b\<in>set bs. (status b = RENTED) = (\<exists>r\<in>set rs. is_open (bId b) r))"

definition inv_lists :: "Battery list \<Rightarrow> Rental list \<Rightarrow> bool" where
  "inv_lists bs rs = (ids_distinct rs \<and> refs_ok bs rs \<and> one_open rs \<and> status_ok bs rs)"

definition lifecycle_inv :: "db \<Rightarrow> bool" where
  "lifecycle_inv s = inv_lists (batteries s) (rentals s)"





text \<open>
  Every customer without rentals has the rating 3 of a new customer; \<open>recomputed_after\<close>:
  the state is a recomputation on a state with the earlier customers and rentals of the
  same customers.
\<close>

definition unrented_rated_3 :: "db \<Rightarrow> bool" where
  "unrented_rated_3 s =
     (\<forall>c\<in>set (customers s). customerRentals (cId c) s = [] \<longrightarrow> creditRating c = 3)"

definition recomputed_after :: "db \<Rightarrow> db \<Rightarrow> bool" where
  "recomputed_after s s' =
     (\<exists>cid mid. customers mid = customers s
        \<and> map customerId (rentals mid) = map customerId (rentals s)
        \<and> s' = updateCustomerCreditRating cid mid)"

section \<open>Sample data\<close>

definition alice :: Customer where
  "alice = \<lparr>cId = ''c1'', name = ''Alice'', phoneNumber = ''0700'', address = ''Main St'',
            creditRating = 3\<rparr>"

definition day :: int where
  "day = 1000 * 60 * 60 * 24"

text \<open>A rental of alice, paid, returned after five days (scenario C).\<close>

definition rental_C :: Rental where
  "rental_C = \<lparr>rId = ''r1'', batteryId = ''b1'', customerId = ''c1'', rentDate = 0,
               returnDate = Some (5 * day), rentalPrice = 10000, isPaid = True\<rparr>"

text \<open>A rental of alice, unpaid with one part payment, returned after ten days (scenario D).\<close>

definition rental_D :: Rental where
  "rental_D = \<lparr>rId = ''r1'', batteryId = ''b1'', customerId = ''c1'', rentDate = 0,
               returnDate = Some (10 * day), rentalPrice = 10000, isPaid = False\<rparr>"

definition part_payment :: Payment where
  "part_payment = \<lparr>pId = ''p1'', rentalId = ''r1'', payerId = ''c1'', amount = 4000,
                   paymentDate = 2 * day, paymentMethod = CASH\<rparr>"

definition db_C :: db where
  "db_C = \<lparr>batteries = [], customers = [alice], rentals = [rental_C], payments = []\<rparr>"

definition db_D :: db where
  "db_D = \<lparr>batteries = [], customers = [alice], rentals = [rental_D],
           payments = [part_payment]\<rparr>"

text \<open>An inventory of one battery and one customer, nothing rented yet (scenario A).\<close>

definition battery_b1 :: Battery where
  "battery_b1 = \<lparr>bId = ''b1'', serialNumber = ''SN-1'', price = 50000, status = AVAILABLE\<rparr>"

definition db_A :: db where
  "db_A = \<lparr>batteries = [battery_b1], customers = [alice], rentals = [], payments = []\<rparr>"

text \<open>The same inventory with the battery in maintenance, and with no customer.\<close>

definition db_maintenance :: db where
  "db_maintenance = \<lparr>batteries = [battery_b1\<lparr>status := MAINTENANCE\<rparr>], customers = [alice],
                     rentals = [], payments = []\<rparr>"

definition db_no_customer :: db where
  "db_no_customer = \<lparr>batteries = [battery_b1], customers = [], rentals = [], payments = []\<rparr>"

text \<open>
  Battery b1 rented to alice, unpaid and open (scenario B), and the same rental paid in
  full by one payment; bob is a second customer with no rental.
\<close>

definition rental_B :: Rental where
  "rental_B = \<lparr>rId = ''r1'', batteryId = ''b1'', customerId = ''c1'', rentDate = 0,
               returnDate = None, rentalPrice = 10000, isPaid = False\<rparr>"


definition full_payment :: Payment where
  "full_payment = \<lparr>pId = ''p1'', rentalId = ''r1'', payerId = ''c1'', amount = 10000,
                   paymentDate = day, paymentMethod = CASH\<rparr>"

definition db_paid :: db where
  "db_paid = \<lparr>batteries = [battery_b1\<lparr>status := RENTED\<rparr>], customers = [alice],
              rentals = [rental_B\<lparr>isPaid := True\<rparr>], payments = [full_payment]\<rparr>"



text \<open>
  A run through the whole life of one rental: the battery is added, alice is registered,
  rents it, pays in full and returns it after five days. \<open>register_run\<close> stops before
  the rental is created and \<open>rent_run\<close> after it.
\<close>

definition register_run :: "request list" where
  "register_run =
     [CreateBattery ''b1'' (Some ''SN-1'') (Some 50000),
      CreateCustomer ''c1'' (Some ''Alice'') (Some ''0700'') (Some ''Main St'')]"

definition rent_run :: "request list" where
  "rent_run =
     register_run @ [CreateRental ''r1'' 0 (Some ''b1'') (Some ''c1'') (Some 10000) None]"

definition sample_run :: "request list" where
  "sample_run =
     rent_run @
     [CreatePayment ''p1'' day (Some ''r1'') (Some ''c1'') (Some 100) (Some CASH),
      ReturnBattery (5 * day) ''r1'' None None]"

text \<open>
  A rental at 0.80 on which 0.70 and then 0.10 are paid, and a rental at 1.00 on which
  0.996 is paid.
\<close>

definition rounding_run :: "request list" where
  "rounding_run =
     register_run @
     [CreateRental ''r1'' 0 (Some ''b1'') (Some ''c1'') (Some 80) None,
      CreatePayment ''p1'' day (Some ''r1'') (Some ''c1'') (Some (7 / 10)) (Some CASH),
      CreatePayment ''p2'' (2 * day) (Some ''r1'') (Some ''c1'') (Some (1 / 10)) (Some CASH)]"

definition subcent_run :: "request list" where
  "subcent_run =
     register_run @
     [CreateRental ''r1'' 0 (Some ''b1'') (Some ''c1'') (Some 100) None,
      CreatePayment ''p1'' day (Some ''r1'') (Some ''c1'') (Some (996 / 1000)) (Some CASH)]"

text \<open>A battery is added and marked for maintenance.\<close>

definition maintenance_run :: "request list" where
  "maintenance_run =
     [CreateBattery ''b1'' (Some ''SN-1'') (Some 50000),
      UpdateBattery ''b1'' None None (Some MAINTENANCE)]"

definition db_final :: db where
  "db_final = \<lparr>batteries = [battery_b1], customers = [alice\<lparr>creditRating := 5\<rparr>],
     rentals = [rental_C], payments = [full_payment]\<rparr>"

section \<open>Properties of the recomputation\<close>

text \<open>The rating formula in integer arithmetic.\<close>

lemma rating_formula:
  assumes "n \<noteq> 0"
  shows "Math_round (of_int p / of_int (n * 3) * 5) = (10 * p + 3 * n) div (6 * n)"
proof -
  have "(of_int p / of_int (n * 3) * 5 + 1 / 2 :: rat) = of_int (10 * p + 3 * n) / of_int (6 * n)"
    using assms by (simp add: field_simps)
  then show ?thesis
    unfolding Math_round_def by (simp only: floor_divide_of_int_eq)
qed

lemma customerRentals_setCreditRating [simp]:
  "customerRentals c (setCreditRating cid v s) = customerRentals c s"
  by (simp add: customerRentals_def setCreditRating_def)

lemma rentalPayments_setCreditRating [simp]:
  "rentalPayments (setCreditRating cid v s) r = rentalPayments s r"
  by (simp add: rentalPayments_def setCreditRating_def)

lemma addRentalPoints_setCreditRating [simp]:
  "addRentalPoints (setCreditRating cid v s) = addRentalPoints s"
  by (intro ext) (simp add: addRentalPoints_def)

lemma setCreditRating_twice [simp]:
  "setCreditRating cid v (setCreditRating cid w s) = setCreditRating cid v s"
  by (simp add: setCreditRating_def comp_def cong: map_cong)

text \<open>
  C1. A customer with exactly one rental is rated 5 by the recomputation when that
  rental is paid and was returned within seven whole days of the rent date, and is rated
  2 when the rental is unpaid, has at least one payment, and was returned more than
  seven whole days after the rent date (ten days in scenario D).
\<close>

theorem credit_rating_single_rental:
  assumes "customerRentals cid s = [rental]"
  shows "(isPaid rental \<and> returnDate rental = Some d
            \<and> (d - rentDate rental) div (1000 * 60 * 60 * 24) \<le> 7
          \<longrightarrow> updateCustomerCreditRating cid s = setCreditRating cid 5 s)
       \<and> (\<not> isPaid rental \<and> rentalPayments s rental \<noteq> [] \<and> returnDate rental = Some d
            \<and> (d - rentDate rental) div (1000 * 60 * 60 * 24) > 7
          \<longrightarrow> updateCustomerCreditRating cid s = setCreditRating cid 2 s)"
proof (intro conjI impI)
  assume "isPaid rental \<and> returnDate rental = Some d
            \<and> (d - rentDate rental) div (1000 * 60 * 60 * 24) \<le> 7"
  then have "fold (addRentalPoints s) [rental] 0 = 3"
    by (simp add: addRentalPoints_def)
  then show "updateCustomerCreditRating cid s = setCreditRating cid 5 s"
    using assms rating_formula [of 1 3] by (simp add: updateCustomerCreditRating_def)
next
  assume "\<not> isPaid rental \<and> rentalPayments s rental \<noteq> [] \<and> returnDate rental = Some d
            \<and> (d - rentDate rental) div (1000 * 60 * 60 * 24) > 7"
  then have "fold (addRentalPoints s) [rental] 0 = 1"
    by (simp add: addRentalPoints_def)
  then show "updateCustomerCreditRating cid s = setCreditRating cid 2 s"
    using assms rating_formula [of 1 1] by (simp add: updateCustomerCreditRating_def)
qed

theorem credit_rating_single_rental_witness:
  "map creditRating (customers (updateCustomerCreditRating ''c1'' db_C)) = [5]
   \<and> map creditRating (customers (updateCustomerCreditRating ''c1'' db_D)) = [2]"
proof -
  have rc: "customerRentals ''c1'' db_C = [rental_C]"
    by (simp add: customerRentals_def db_C_def rental_C_def)
  have rd: "customerRentals ''c1'' db_D = [rental_D]"
    by (simp add: customerRentals_def db_D_def rental_D_def)
  have c: "updateCustomerCreditRating ''c1'' db_C = setCreditRating ''c1'' 5 db_C"
    using credit_rating_single_rental [OF rc, of "5 * day"]
    by (simp add: rental_C_def day_def)
  have d: "updateCustomerCreditRating ''c1'' db_D = setCreditRating ''c1'' 2 db_D"
    using credit_rating_single_rental [OF rd, of "10 * day"]
    by (simp add: rental_D_def day_def rentalPayments_def db_D_def part_payment_def)
  show ?thesis
    unfolding c d by (simp add: setCreditRating_def db_C_def db_D_def alice_def)
qed

text \<open>
  C7. The recomputation is idempotent: it reads the rentals and the payments and writes
  only the customer's rating, so a second run in succession computes the same rating
  and leaves the database as the first run left it.
\<close>

theorem credit_rating_idempotent:
  "updateCustomerCreditRating cid (updateCustomerCreditRating cid s)
     = updateCustomerCreditRating cid s"
  by (simp add: updateCustomerCreditRating_def Let_def)

theorem credit_rating_idempotent_witness:
  "updateCustomerCreditRating ''c1'' (updateCustomerCreditRating ''c1'' db_D)
     = updateCustomerCreditRating ''c1'' db_D
   \<and> map creditRating (customers (updateCustomerCreditRating ''c1'' db_D)) = [2]"
proof -
  have "map creditRating (customers (updateCustomerCreditRating ''c1'' db_D)) = [2]"
    using rating_formula [of 1 1]
    by (simp add: updateCustomerCreditRating_def customerRentals_def db_D_def rental_D_def
        addRentalPoints_def rentalPayments_def part_payment_def day_def
        setCreditRating_def alice_def)
  then show ?thesis
    using credit_rating_idempotent [of "''c1''" db_D] by simp
qed

section \<open>Properties of the handlers\<close>

lemma find_map_upd:
  assumes "\<And>x. key (f x) = key x"
  shows "find (\<lambda>x. key x = k) (map (\<lambda>x. if key x = k then f x else x) xs)
           = map_option f (find (\<lambda>x. key x = k) xs)"
  using assms by (induction xs) auto

lemma find_append_fresh:
  "find P xs = None \<Longrightarrow> P y \<Longrightarrow> find P (xs @ [y]) = Some y"
  by (induction xs) (auto split: if_splits)


lemma find_key: "find (\<lambda>x. key x = k) xs = Some x \<Longrightarrow> key x = k"
  by (induction xs) (auto split: if_splits)

lemma updateCustomerCreditRating_frame [simp]:
  "batteries (updateCustomerCreditRating cid s) = batteries s"
  "rentals (updateCustomerCreditRating cid s) = rentals s"
  "payments (updateCustomerCreditRating cid s) = payments s"
  by (simp_all add: updateCustomerCreditRating_def setCreditRating_def Let_def)

lemma findRental_recompute [simp]:
  "findRental i (updateCustomerCreditRating cid s) = findRental i s"
  by (simp add: findRental_def)

lemma rentalPayments_recompute [simp]:
  "rentalPayments (updateCustomerCreditRating cid s) r = rentalPayments s r"
  by (simp add: rentalPayments_def)

text \<open>
  C3. Create Rental, with its three required fields supplied, answers in the order of
  its checks: 404 "Battery not found" when the battery does not exist; 400 "Battery is
  not available for rent" (the Conflict) when it exists with a status other than
  AVAILABLE; 404 "Customer not found" when the battery is available and the customer
  does not exist. Whatever the inputs, an error answer leaves the database as it was.
  When the battery is available and the customer exists, the one step inserts a rental
  with returnDate null and sets the battery's status to RENTED.
\<close>

theorem create_rental_outcomes:
  assumes "bid \<noteq> []" and "cid \<noteq> []" and "p \<noteq> 0"
  shows "(findBattery bid s = None \<longrightarrow>
            createRental newId now (Some bid) (Some cid) (Some p) ip s
              = (Inl (HttpError 404 ''Battery not found''), s))
       \<and> (\<forall>b. findBattery bid s = Some b \<and> status b \<noteq> AVAILABLE \<longrightarrow>
            createRental newId now (Some bid) (Some cid) (Some p) ip s
              = (Inl (HttpError 400 ''Battery is not available for rent''), s))
       \<and> (\<forall>b. findBattery bid s = Some b \<and> status b = AVAILABLE \<and> findCustomer cid s = None \<longrightarrow>
            createRental newId now (Some bid) (Some cid) (Some p) ip s
              = (Inl (HttpError 404 ''Customer not found''), s))
       \<and> (\<forall>bo co po e s'. createRental newId now bo co po ip s = (Inl e, s') \<longrightarrow> s' = s)
       \<and> (\<forall>b c. findBattery bid s = Some b \<and> status b = AVAILABLE \<and> findCustomer cid s = Some c
              \<and> findRental newId s = None \<longrightarrow>
            (\<exists>rental s'.
               createRental newId now (Some bid) (Some cid) (Some p) ip s = (Inr rental, s')
               \<and> rId rental = newId \<and> batteryId rental = bid \<and> customerId rental = cid
               \<and> returnDate rental = None
               \<and> rentals s' = rentals s @ [rental]
               \<and> findBattery bid s' = Some (b\<lparr>status := RENTED\<rparr>)
               \<and> batteries s'
                   = map (\<lambda>x. if bId x = bid then x\<lparr>status := RENTED\<rparr> else x) (batteries s)
               \<and> customers s' = customers s \<and> payments s' = payments s))"
proof (intro conjI allI impI)
  fix bo co po e s'
  assume "createRental newId now bo co po ip s = (Inl e, s')"
  then show "s' = s"
    by (auto simp: createRental_def Let_def split: option.splits if_splits)
next
  fix b c
  assume h: "findBattery bid s = Some b \<and> status b = AVAILABLE \<and> findCustomer cid s = Some c
              \<and> findRental newId s = None"
  have "find (\<lambda>x. bId x = bid)
          (map (\<lambda>x. if bId x = bid then x\<lparr>status := RENTED\<rparr> else x) (batteries s))
          = Some (b\<lparr>status := RENTED\<rparr>)"
    using h find_map_upd [of bId "\<lambda>x. x\<lparr>status := RENTED\<rparr>" bid "batteries s"]
    by (simp add: findBattery_def)
  then show "\<exists>rental s'.
               createRental newId now (Some bid) (Some cid) (Some p) ip s = (Inr rental, s')
               \<and> rId rental = newId \<and> batteryId rental = bid \<and> customerId rental = cid
               \<and> returnDate rental = None
               \<and> rentals s' = rentals s @ [rental]
               \<and> findBattery bid s' = Some (b\<lparr>status := RENTED\<rparr>)
               \<and> batteries s'
                   = map (\<lambda>x. if bId x = bid then x\<lparr>status := RENTED\<rparr> else x) (batteries s)
               \<and> customers s' = customers s \<and> payments s' = payments s"
    using assms h by (simp add: createRental_def Let_def findBattery_def)
qed (use assms in \<open>simp_all add: createRental_def\<close>)

text \<open>
  Scenario A on the sample inventory: the first rental of battery b1 succeeds and the
  battery is RENTED; a second Create Rental on it answers the Conflict.
\<close>

theorem create_rental_outcomes_witness:
  "createRental ''r1'' 0 (Some ''b1'') (Some ''c1'') (Some 10000) None empty_db
     = (Inl (HttpError 404 ''Battery not found''), empty_db)
   \<and> createRental ''r1'' 0 (Some ''b1'') (Some ''c1'') (Some 10000) None db_maintenance
     = (Inl (HttpError 400 ''Battery is not available for rent''), db_maintenance)
   \<and> createRental ''r1'' 0 (Some ''b1'') (Some ''c1'') (Some 10000) None db_no_customer
     = (Inl (HttpError 404 ''Customer not found''), db_no_customer)
   \<and> map returnDate (rentals (snd (createRental ''r1'' 0 (Some ''b1'') (Some ''c1'')
        (Some 10000) None db_A))) = [None]
   \<and> map status (batteries (snd (createRental ''r1'' 0 (Some ''b1'') (Some ''c1'')
        (Some 10000) None db_A))) = [RENTED]
   \<and> fst (createRental ''r2'' 1 (Some ''b1'') (Some ''c1'') (Some 10000) None
        (snd (createRental ''r1'' 0 (Some ''b1'') (Some ''c1'') (Some 10000) None db_A)))
     = Inl (HttpError 400 ''Battery is not available for rent'')"
proof -
  note co = create_rental_outcomes [where bid = "''b1''" and cid = "''c1''" and p = 10000
      and newId = "''r1''" and now = 0 and ip = None]
  have 1: "createRental ''r1'' 0 (Some ''b1'') (Some ''c1'') (Some 10000) None empty_db
             = (Inl (HttpError 404 ''Battery not found''), empty_db)"
    using co [where s = empty_db] by (simp add: findBattery_def empty_db_def)
  have 2: "createRental ''r1'' 0 (Some ''b1'') (Some ''c1'') (Some 10000) None db_maintenance
             = (Inl (HttpError 400 ''Battery is not available for rent''), db_maintenance)"
    using co [where s = db_maintenance]
    by (simp add: findBattery_def db_maintenance_def battery_b1_def)
  have 3: "createRental ''r1'' 0 (Some ''b1'') (Some ''c1'') (Some 10000) None db_no_customer
             = (Inl (HttpError 404 ''Customer not found''), db_no_customer)"
    using co [where s = db_no_customer]
    by (simp add: findBattery_def findCustomer_def db_no_customer_def battery_b1_def)
  obtain rental s' where
    ok: "createRental ''r1'' 0 (Some ''b1'') (Some ''c1'') (Some 10000) None db_A = (Inr rental, s')"
    and r: "returnDate rental = None" "rentals s' = rentals db_A @ [rental]"
    and b: "findBattery ''b1'' s' = Some (battery_b1\<lparr>status := RENTED\<rparr>)"
      "batteries s'
         = map (\<lambda>x. if bId x = ''b1'' then x\<lparr>status := RENTED\<rparr> else x) (batteries db_A)"
    using co [where s = db_A]
    by (auto simp: findBattery_def findCustomer_def findRental_def db_A_def battery_b1_def
        alice_def)
  have 4: "map returnDate (rentals s') = [None]"
    using r by (simp add: db_A_def)
  have 5: "map status (batteries s') = [RENTED]"
    using b by (simp add: db_A_def battery_b1_def)
  have 6: "fst (createRental ''r2'' 1 (Some ''b1'') (Some ''c1'') (Some 10000) None s')
             = Inl (HttpError 400 ''Battery is not available for rent'')"
    using b by (simp add: createRental_def)
  show ?thesis
    using 1 2 3 4 5 6 by (simp add: ok)
qed

text \<open>
  C6. Return Battery on a rental whose returnDate is already set answers 400 "Battery
  has already been returned" and leaves the whole database, so the rental's fields and
  the battery's status, as it was.
\<close>

theorem return_twice_conflict:
  assumes "findRental i s = Some rental" and "returnDate rental = Some d"
  shows "returnBattery now i rd ip s
           = (Inl (HttpError 400 ''Battery has already been returned''), s)"
  using assms by (simp add: returnBattery_def)

theorem return_twice_conflict_witness:
  "returnBattery (6 * day) ''r1'' None None db_C
     = (Inl (HttpError 400 ''Battery has already been returned''), db_C)"
proof -
  have "findRental ''r1'' db_C = Some rental_C"
    by (simp add: findRental_def db_C_def rental_C_def)
  moreover have "returnDate rental_C = Some (5 * day)"
    by (simp add: rental_C_def)
  ultimately show ?thesis
    by (rule return_twice_conflict)
qed

text \<open>
  C10. The payment-status route sets isPaid of an existing rental to the flag the caller
  gives, whatever the rental's payments are, inserts no payment, touches no battery, and
  recomputes the rating of the rental's customer on the result.
\<close>

theorem payment_status_override:
  assumes "findRental i s = Some rental"
  shows "updateRentalPayment i (Some b) s
           = (Inr (rental\<lparr>isPaid := b\<rparr>),
              updateCustomerCreditRating (customerId rental)
                (s\<lparr>rentals :=
                     map (\<lambda>r. if rId r = i then r\<lparr>isPaid := b\<rparr> else r) (rentals s)\<rparr>))
         \<and> findRental i (snd (updateRentalPayment i (Some b) s)) = Some (rental\<lparr>isPaid := b\<rparr>)
         \<and> payments (snd (updateRentalPayment i (Some b) s)) = payments s
         \<and> batteries (snd (updateRentalPayment i (Some b) s)) = batteries s"
proof -
  have "find (\<lambda>r. rId r = i) (map (\<lambda>r. if rId r = i then r\<lparr>isPaid := b\<rparr> else r) (rentals s))
          = Some (rental\<lparr>isPaid := b\<rparr>)"
    using assms find_map_upd [of rId "\<lambda>r. r\<lparr>isPaid := b\<rparr>" i "rentals s"]
    by (simp add: findRental_def)
  then show ?thesis
    using assms by (simp add: updateRentalPayment_def findRental_def)
qed

theorem payment_status_override_witness:
  "map isPaid (rentals (snd (updateRentalPayment ''r1'' (Some False) db_paid))) = [False]
   \<and> payments (snd (updateRentalPayment ''r1'' (Some False) db_paid)) = [full_payment]
   \<and> map creditRating (customers (snd (updateRentalPayment ''r1'' (Some False) db_paid))) = [2]"
proof -
  have fp: "findRental ''r1'' db_paid = Some (rental_B\<lparr>isPaid := True\<rparr>)"
    by (simp add: findRental_def db_paid_def rental_B_def)
  note po = payment_status_override [OF fp, of False]
  have 1: "map isPaid (rentals (snd (updateRentalPayment ''r1'' (Some False) db_paid))) = [False]"
    using po [THEN conjunct1] by (simp add: db_paid_def rental_B_def)
  have 2: "payments (snd (updateRentalPayment ''r1'' (Some False) db_paid)) = [full_payment]"
    using po [THEN conjunct2, THEN conjunct2, THEN conjunct1] by (simp add: db_paid_def)
  have 3: "map creditRating (customers (snd (updateRentalPayment ''r1'' (Some False) db_paid)))
             = [2]"
    using po [THEN conjunct1] rating_formula [of 1 1]
    by (simp add: db_paid_def rental_B_def updateCustomerCreditRating_def customerRentals_def
        addRentalPoints_def rentalPayments_def full_payment_def setCreditRating_def alice_def)
  show ?thesis
    using 1 2 3 by simp
qed

lemma f64_values:
  "f64 100 = 100" "f64 40 = 40" "f64 5 = 5" "f64 (- 5) = - 5" "f64 1 = 1"
  "f64 (7 / 10) = 3152519739159347 / 4503599627370496"
  "f64 (1 / 10) = 3602879701896397 / 36028797018963968"
  "f64 (3152519739159347 / 4503599627370496) = 3152519739159347 / 4503599627370496"
  "f64 (28823037615171173 / 36028797018963968) = 7205759403792793 / 9007199254740992"
  "f64 (249 / 250) = 2242792614430507 / 2251799813685248"
  "f64 (2242792614430507 / 2251799813685248) = 2242792614430507 / 2251799813685248"
  by code_simp+

lemma Number_Decimal_values:
  "Number_Decimal 10000 = 100" "Number_Decimal 100 = 1"
  "Number_Decimal 80 = 3602879701896397 / 4503599627370496"
  "Number_Decimal 70 = 3152519739159347 / 4503599627370496"
  by code_simp+

lemma toDecimal2_values:
  "toDecimal2 100 = 10000" "toDecimal2 40 = 4000" "toDecimal2 5 = 500"
  "toDecimal2 (- 5) = - 500"
  "toDecimal2 (3152519739159347 / 4503599627370496) = 70"
  "toDecimal2 (3602879701896397 / 36028797018963968) = 10"
  "toDecimal2 (2242792614430507 / 2251799813685248) = 100"
  by code_simp+

lemma parseInt_values:
  "parseInt (f64 0) = 0" "parseInt (f64 1) = 1" "parseInt (f64 2) = 2" "parseInt (f64 3) = 3"
  "parseInt (f64 4) = 4" "parseInt (f64 5) = 5" "parseInt (f64 9) = 9"
  by code_simp+


lemma run_register:
  "run register_run
     = \<lparr>batteries = [battery_b1], customers = [alice], rentals = [], payments = []\<rparr>"
  by (simp add: run_def register_run_def empty_db_def createBattery_def createCustomer_def
      findBattery_def findCustomer_def Let_def battery_b1_def alice_def)

text \<open>
  What a successful Record Payment leaves: the payment appended with the amount as the
  column stores it, and isPaid true when it was true or when the binary64 total reaches
  the binary64 rental price.
\<close>

lemma record_payment_isPaid_computed:
  assumes "findRental rid s = Some rental"
    and ok: "createPayment newId now (Some rid) cid' (Some a) m' s = (Inr payment, s')"
  shows "amount payment = toDecimal2 (f64 a)
     \<and> payments s' = payments s @ [payment]
     \<and> (\<exists>rental'. findRental rid s' = Some rental'
          \<and> isPaid rental'
              = (isPaid rental
                 \<or> Number_Decimal (rentalPrice rental)
                      \<le> f64 (totalPaid (rentalPayments s rental) + f64 a)))"
proof -
  have key: "rId rental = rid"
    using assms(1) unfolding findRental_def by (rule find_key)
  have upd: "find (\<lambda>r. rId r = rid)
               (map (\<lambda>r. if rId r = rid then r\<lparr>isPaid := True\<rparr> else r) (rentals s))
             = Some (rental\<lparr>isPaid := True\<rparr>)"
    using assms(1) find_map_upd [of rId "\<lambda>r. r\<lparr>isPaid := True\<rparr>" rid "rentals s"]
    by (simp add: findRental_def)
  obtain cid m where args: "cid' = Some cid" "m' = Some m"
    using ok by (auto simp: createPayment_def split: option.splits)
  have pay: "payment = \<lparr>pId = newId, rentalId = rid, payerId = cid, amount = toDecimal2 (f64 a),
                        paymentDate = now, paymentMethod = m\<rparr>"
    using ok assms(1) unfolding args
    by (auto simp: createPayment_def Let_def split: option.splits if_splits)
  show ?thesis
  proof (cases "Number_Decimal (rentalPrice rental)
                  \<le> f64 (totalPaid (rentalPayments s rental) + f64 a)")
    case True
    then have s': "s' = updateCustomerCreditRating cid
        (s\<lparr>payments := payments s @ [payment],
           rentals := map (\<lambda>r. if rId r = rid then r\<lparr>isPaid := True\<rparr> else r) (rentals s)\<rparr>)"
      using ok assms(1) unfolding args pay
      by (auto simp: createPayment_def Let_def split: option.splits if_splits)
    show ?thesis
      using True upd key unfolding s' pay
      by (simp add: findRental_def)
  next
    case False
    then have s': "s' = updateCustomerCreditRating cid (s\<lparr>payments := payments s @ [payment]\<rparr>)"
      using ok assms(1) unfolding args pay
      by (auto simp: createPayment_def Let_def split: option.splits if_splits)
    show ?thesis
      using False assms(1) key unfolding s' pay
      by (simp add: findRental_def)
  qed
qed

text \<open>
  C4. On a rental at 0.80 with a payment of 0.70, Record Payment of 0.10 succeeds and
  leaves isPaid false, although the payments of the rental, 0.70 and 0.10, sum to the
  rental price: the route adds the amounts as binary64 numbers, and 0.7 + 0.1 is
  0.7999999999999999 there. On a rental at 1.00 without payments, Record Payment of 0.996
  inserts a payment whose amount the column rounds to 1.00 and leaves isPaid false: the
  route compares the number of the request, not the amount it stores.
\<close>

theorem record_payment_rounding:
  "map rentalPrice (rentals (run rounding_run)) = [80]
   \<and> map amount (payments (run rounding_run)) = [70, 10]
   \<and> map rentalId (payments (run rounding_run)) = [''r1'', ''r1'']
   \<and> map isPaid (rentals (run rounding_run)) = [False]
   \<and> map rentalPrice (rentals (run subcent_run)) = [100]
   \<and> map amount (payments (run subcent_run)) = [100]
   \<and> map rentalId (payments (run subcent_run)) = [''r1'']
   \<and> map isPaid (rentals (run subcent_run)) = [False]"
proof -
  have reg: "fold handle (register_run @ rqs) empty_db
      = fold handle rqs
          \<lparr>batteries = [battery_b1], customers = [alice], rentals = [], payments = []\<rparr>"
    for rqs
    using run_register by (simp add: run_def)
  have 1: "map rentalPrice (rentals (run rounding_run)) = [80]
   \<and> map amount (payments (run rounding_run)) = [70, 10]
   \<and> map rentalId (payments (run rounding_run)) = [''r1'', ''r1'']
   \<and> map isPaid (rentals (run rounding_run)) = [False]"
    unfolding run_def rounding_run_def reg
    by (simp add: createRental_def createPayment_def findBattery_def findCustomer_def
        findRental_def battery_b1_def alice_def rentalPayments_def totalPaid_def
        Number_Decimal_values f64_values toDecimal2_values updateCustomerCreditRating_def
        customerRentals_def addRentalPoints_def setCreditRating_def truthy_str_def Let_def)
  have 2: "map rentalPrice (rentals (run subcent_run)) = [100]
   \<and> map amount (payments (run subcent_run)) = [100]
   \<and> map rentalId (payments (run subcent_run)) = [''r1'']
   \<and> map isPaid (rentals (run subcent_run)) = [False]"
    unfolding run_def subcent_run_def reg
    by (simp add: createRental_def createPayment_def findBattery_def findCustomer_def
        findRental_def battery_b1_def alice_def rentalPayments_def totalPaid_def
        Number_Decimal_values f64_values toDecimal2_values updateCustomerCreditRating_def
        customerRentals_def addRentalPoints_def setCreditRating_def truthy_str_def Let_def)
  show ?thesis
    using 1 2 by simp
qed




section \<open>The availability invariant along runs\<close>

lemma bId_image_edit:
  assumes "\<And>b. bId (f b) = bId b"
  shows "bId ` set (map (\<lambda>b. if bId b = i then f b else b) bs) = bId ` set bs"
proof -
  have "map bId (map (\<lambda>b. if bId b = i then f b else b) bs) = map bId bs"
    using assms by simp
  then have "set (map bId (map (\<lambda>b. if bId b = i then f b else b) bs)) = set (map bId bs)"
    by (rule arg_cong)
  then show ?thesis
    by (simp only: set_map)
qed

lemma inv_add_battery:
  assumes "inv_lists bs rs" "bId b \<notin> bId ` set bs" "status b = AVAILABLE"
  shows "inv_lists (bs @ [b]) rs"
proof -
  have r: "refs_ok bs rs" and s: "status_ok bs rs"
    using assms(1) by (simp_all add: inv_lists_def)
  have "refs_ok (bs @ [b]) rs"
    using r unfolding refs_ok_def by simp
  moreover have "\<not> (\<exists>x\<in>set rs. is_open (bId b) x)"
  proof
    assume "\<exists>x\<in>set rs. is_open (bId b) x"
    then obtain x where "x \<in> set rs" "batteryId x = bId b"
      unfolding is_open_def by blast
    then have "bId b \<in> bId ` set bs"
      using r unfolding refs_ok_def by metis
    then show False
      using assms(2) by simp
  qed
  then have "status_ok (bs @ [b]) rs"
    using s assms(3) unfolding status_ok_def by simp
  ultimately show ?thesis
    using assms(1) by (simp add: inv_lists_def)
qed

lemma inv_edit_battery:
  assumes "inv_lists bs rs" "\<And>b. bId (f b) = bId b" "\<And>b. status (f b) = status b"
  shows "inv_lists (map (\<lambda>b. if bId b = i then f b else b) bs) rs"
proof -
  let ?h = "\<lambda>b. if bId b = i then f b else b"
  have h: "bId (?h b) = bId b" "status (?h b) = status b" for b
    using assms(2,3) by simp_all
  have "refs_ok (map ?h bs) rs"
    using assms(1) unfolding inv_lists_def refs_ok_def bId_image_edit [of f, OF assms(2)]
    by simp
  moreover have "status_ok bs rs"
    using assms(1) by (simp add: inv_lists_def)
  then have "status_ok (map ?h bs) rs"
    unfolding status_ok_def by (simp only: set_map ball_simps h)
  ultimately show ?thesis
    using assms(1) by (simp add: inv_lists_def)
qed

lemma inv_delete_battery:
  assumes "inv_lists bs rs" "\<forall>r\<in>set rs. batteryId r \<noteq> i"
  shows "inv_lists (filter (\<lambda>b. bId b \<noteq> i) bs) rs"
proof -
  have "refs_ok (filter (\<lambda>b. bId b \<noteq> i) bs) rs"
    unfolding refs_ok_def
  proof
    fix r assume r: "r \<in> set rs"
    then obtain b where "b \<in> set bs" "bId b = batteryId r"
      using assms(1) unfolding inv_lists_def refs_ok_def by force
    moreover have "batteryId r \<noteq> i" using assms(2) r by simp
    ultimately show "batteryId r \<in> bId ` set (filter (\<lambda>b. bId b \<noteq> i) bs)"
      by force
  qed
  moreover have "status_ok (filter (\<lambda>b. bId b \<noteq> i) bs) rs"
    using assms(1) unfolding inv_lists_def status_ok_def by simp
  ultimately show ?thesis
    using assms(1) by (simp add: inv_lists_def)
qed

lemma inv_rent:
  assumes "inv_lists bs rs" "b \<in> set bs" "bId b = bid" "status b = AVAILABLE"
    "rId r \<notin> rId ` set rs" "batteryId r = bid" "returnDate r = None"
  shows "inv_lists (map (\<lambda>b. if bId b = bid then b\<lparr>status := RENTED\<rparr> else b) bs) (rs @ [r])"
proof -
  let ?h = "\<lambda>b. if bId b = bid then b\<lparr>status := RENTED\<rparr> else b"
  have d: "ids_distinct rs" and f: "refs_ok bs rs" and o: "one_open rs" and s: "status_ok bs rs"
    using assms(1) by (simp_all add: inv_lists_def)
  have noopen: "\<not> is_open bid x" if "x \<in> set rs" for x
    using s assms(2,3,4) that unfolding status_ok_def by force
  have ids: "bId ` set (map ?h bs) = bId ` set bs"
    by (rule bId_image_edit) simp
  have 1: "ids_distinct (rs @ [r])"
    using d assms(5) unfolding ids_distinct_def by simp
  have "bid \<in> bId ` set bs"
    using assms(2,3) by force
  then have 2: "refs_ok (map ?h bs) (rs @ [r])"
    using f assms(6) unfolding refs_ok_def ids by simp
  have 3: "one_open (rs @ [r])"
    unfolding one_open_def
  proof (intro ballI impI)
    fix r1 r2
    assume m: "r1 \<in> set (rs @ [r])" "r2 \<in> set (rs @ [r])"
      and op: "is_open (batteryId r1) r1 \<and> is_open (batteryId r1) r2"
    show "rId r1 = rId r2"
    proof (cases "r1 = r \<or> r2 = r")
      case True
      show ?thesis
      proof (rule ccontr)
        assume ne: "rId r1 \<noteq> rId r2"
        have bat: "batteryId r1 = bid" "batteryId r2 = bid"
          using True op assms(6) unfolding is_open_def by auto
        have "r1 \<in> set rs \<or> r2 \<in> set rs"
          using m ne by auto
        then show False
          using noopen op bat by auto
      qed
    next
      case False
      then have "r1 \<in> set rs" "r2 \<in> set rs" using m by auto
      then show ?thesis using o op unfolding one_open_def by blast
    qed
  qed
  have 4: "status_ok (map ?h bs) (rs @ [r])"
    unfolding status_ok_def
  proof
    fix b' assume "b' \<in> set (map ?h bs)"
    then obtain b0 where b0: "b0 \<in> set bs" "b' = ?h b0" by auto
    show "(status b' = RENTED) = (\<exists>x\<in>set (rs @ [r]). is_open (bId b') x)"
    proof (cases "bId b0 = bid")
      case True
      then have "is_open (bId b') r" using b0 assms(6,7) by (simp add: is_open_def)
      then show ?thesis using True b0 by auto
    next
      case False
      then have "\<not> is_open (bId b') r" using b0 assms(6) by (simp add: is_open_def)
      moreover have "(status b0 = RENTED) = (\<exists>x\<in>set rs. is_open (bId b0) x)"
        using s b0(1) unfolding status_ok_def by blast
      ultimately show ?thesis using False b0 by simp
    qed
  qed
  show ?thesis
    using 1 2 3 4 by (simp add: inv_lists_def)
qed

lemma inv_edit_rental:
  assumes "inv_lists bs rs"
    "\<And>x. rId (f x) = rId x" "\<And>x. batteryId (f x) = batteryId x"
    "\<And>x. returnDate (f x) = returnDate x"
  shows "inv_lists bs (map (\<lambda>x. if rId x = i then f x else x) rs)"
proof -
  let ?g = "\<lambda>x. if rId x = i then f x else x"
  have d: "ids_distinct rs" and r: "refs_ok bs rs" and o: "one_open rs" and s: "status_ok bs rs"
    using assms(1) by (simp_all add: inv_lists_def)
  have g: "rId (?g x) = rId x" "batteryId (?g x) = batteryId x" "is_open k (?g x) = is_open k x"
    for x k
    using assms(2,3,4) by (simp_all add: is_open_def)
  have "map rId (map ?g rs) = map rId rs"
    using assms(2) by simp
  then have 1: "ids_distinct (map ?g rs)"
    using d unfolding ids_distinct_def by (simp only:)
  have 2: "refs_ok bs (map ?g rs)"
    using r unfolding refs_ok_def by (simp only: set_map ball_simps g)
  have 3: "one_open (map ?g rs)"
    using o unfolding one_open_def by (simp only: set_map ball_simps g)
  have 4: "status_ok bs (map ?g rs)"
    using s unfolding status_ok_def by (simp only: set_map bex_simps g)
  show ?thesis
    using 1 2 3 4 by (simp add: inv_lists_def)
qed

lemma inv_return:
  assumes "inv_lists bs rs" "r \<in> set rs" "rId r = i" "returnDate r = None"
    "\<And>x. rId (f x) = rId x" "\<And>x. batteryId (f x) = batteryId x"
    "\<And>x. returnDate (f x) \<noteq> None"
  shows "inv_lists (map (\<lambda>b. if bId b = batteryId r then b\<lparr>status := AVAILABLE\<rparr> else b) bs)
           (map (\<lambda>x. if rId x = i then f x else x) rs)"
proof -
  let ?g = "\<lambda>x. if rId x = i then f x else x"
  let ?h = "\<lambda>b. if bId b = batteryId r then b\<lparr>status := AVAILABLE\<rparr> else b"
  have d: "ids_distinct rs" and fk: "refs_ok bs rs" and o: "one_open rs"
    and s: "status_ok bs rs"
    using assms(1) by (simp_all add: inv_lists_def)
  have g: "rId (?g x) = rId x" "batteryId (?g x) = batteryId x"
    "is_open k (?g x) = (rId x \<noteq> i \<and> is_open k x)" for x k
    using assms(5,6,7) by (simp_all add: is_open_def)
  have ids: "bId ` set (map ?h bs) = bId ` set bs"
    by (rule bId_image_edit) simp
  have same: "x = r" if "x \<in> set rs" "rId x = i" for x
  proof -
    have "inj_on rId (set rs)"
      using d unfolding ids_distinct_def by (simp add: distinct_map)
    then show ?thesis
      using that assms(2,3) by (simp add: inj_on_def)
  qed
  have only: "rId x = i" if "x \<in> set rs" "is_open (batteryId r) x" for x
  proof -
    have "is_open (batteryId r) r"
      using assms(4) by (simp add: is_open_def)
    then have "rId r = rId x"
      using o assms(2) that unfolding one_open_def by blast
    then show ?thesis using assms(3) by simp
  qed
  have "map rId (map ?g rs) = map rId rs"
    using assms(5) by simp
  then have 1: "ids_distinct (map ?g rs)"
    using d unfolding ids_distinct_def by (simp only:)
  have 2: "refs_ok (map ?h bs) (map ?g rs)"
    using fk unfolding refs_ok_def ids by (simp only: set_map ball_simps g)
  have 3: "one_open (map ?g rs)"
    unfolding one_open_def
  proof (simp only: set_map ball_simps g, intro ballI impI)
    fix r1 r2
    assume "r1 \<in> set rs" "r2 \<in> set rs"
      "(rId r1 \<noteq> i \<and> is_open (batteryId r1) r1) \<and> rId r2 \<noteq> i \<and> is_open (batteryId r1) r2"
    then show "rId r1 = rId r2"
      using o unfolding one_open_def by blast
  qed
  have 4: "status_ok (map ?h bs) (map ?g rs)"
    unfolding status_ok_def
  proof (simp only: set_map ball_simps bex_simps g, rule ballI)
    fix b assume b: "b \<in> set bs"
    have sb: "(status b = RENTED) = (\<exists>x\<in>set rs. is_open (bId b) x)"
      using s b unfolding status_ok_def by blast
    show "(status (?h b) = RENTED) = (\<exists>x\<in>set rs. rId x \<noteq> i \<and> is_open (bId (?h b)) x)"
    proof (cases "bId b = batteryId r")
      case True
      then have "\<not> (\<exists>x\<in>set rs. rId x \<noteq> i \<and> is_open (bId b) x)"
        using only by auto
      then show ?thesis using True by simp
    next
      case False
      have "(\<exists>x\<in>set rs. is_open (bId b) x) = (\<exists>x\<in>set rs. rId x \<noteq> i \<and> is_open (bId b) x)"
      proof
        assume "\<exists>x\<in>set rs. is_open (bId b) x"
        then obtain x where x: "x \<in> set rs" "is_open (bId b) x" by blast
        have "rId x \<noteq> i"
        proof
          assume "rId x = i"
          then have "x = r" using same x(1) by simp
          then show False using x(2) False by (simp add: is_open_def)
        qed
        then show "\<exists>x\<in>set rs. rId x \<noteq> i \<and> is_open (bId b) x"
          using x by blast
      qed blast
      then show ?thesis using False sb by simp
    qed
  qed
  show ?thesis
    using 1 2 3 4 by (simp add: inv_lists_def)
qed

lemma find_None_notin: "find (\<lambda>x. key x = k) xs = None \<Longrightarrow> k \<notin> key ` set xs"
  by (auto simp: find_None_iff)

lemma find_Some_mem: "find P xs = Some x \<Longrightarrow> x \<in> set xs"
  by (auto simp: find_Some_iff)

lemma lifecycle_inv_frame:
  "batteries s' = batteries s \<Longrightarrow> rentals s' = rentals s \<Longrightarrow> lifecycle_inv s' = lifecycle_inv s"
  by (simp add: lifecycle_inv_def)

lemma lifecycle_inv_recompute [simp]:
  "lifecycle_inv (updateCustomerCreditRating cid s) = lifecycle_inv s"
  by (simp add: lifecycle_inv_def)

lemma createBattery_inv:
  assumes "lifecycle_inv s"
  shows "lifecycle_inv (snd (createBattery newId sn p s))"
proof (cases "\<exists>b. fst (createBattery newId sn p s) = Inr b")
  case False
  then have "snd (createBattery newId sn p s) = s"
    by (auto simp: createBattery_def Let_def split: option.splits if_splits)
  then show ?thesis using assms by simp
next
  case True
  then obtain b where "fst (createBattery newId sn p s) = Inr b" by blast
  then have "findBattery newId s = None" "bId b = newId" "status b = AVAILABLE"
    "snd (createBattery newId sn p s) = s\<lparr>batteries := batteries s @ [b]\<rparr>"
    by (auto simp: createBattery_def Let_def split: option.splits if_splits)
  then show ?thesis
    using assms inv_add_battery [of "batteries s" "rentals s" b]
    by (simp add: lifecycle_inv_def findBattery_def find_None_notin)
qed

lemma updateBattery_inv:
  assumes "lifecycle_inv s"
  shows "lifecycle_inv (snd (updateBattery i sn p None s))"
proof -
  define upd where "upd = (\<lambda>b::Battery. b\<lparr>serialNumber :=
                                (case sn of
                                   Some sn \<Rightarrow> if sn = [] then serialNumber b else sn
                                 | None \<Rightarrow> serialNumber b),
                              price :=
                                (case p of
                                   Some p \<Rightarrow> if p = 0 then price b else p
                                 | None \<Rightarrow> price b),
                              status := status b\<rparr>)"
  have "snd (updateBattery i sn p None s) = s
      \<or> snd (updateBattery i sn p None s)
          = s\<lparr>batteries := map (\<lambda>b. if bId b = i then upd b else b) (batteries s)\<rparr>"
    by (simp add: updateBattery_def Let_def upd_def split: option.splits)
  moreover have "inv_lists (map (\<lambda>b. if bId b = i then upd b else b) (batteries s)) (rentals s)"
    using assms unfolding lifecycle_inv_def
    by (rule inv_edit_battery) (simp_all add: upd_def)
  ultimately show ?thesis
    using assms by (auto simp: lifecycle_inv_def)
qed

lemma deleteBattery_inv:
  assumes "lifecycle_inv s"
  shows "lifecycle_inv (snd (deleteBattery i s))"
proof (cases "snd (deleteBattery i s) = s")
  case True
  then show ?thesis using assms by simp
next
  case False
  then have "filter (\<lambda>r. batteryId r = i) (rentals s) = []"
    and s': "snd (deleteBattery i s) = s\<lparr>batteries := filter (\<lambda>b. bId b \<noteq> i) (batteries s)\<rparr>"
    by (auto simp: deleteBattery_def split: option.splits if_splits)
  then have "\<forall>r\<in>set (rentals s). batteryId r \<noteq> i"
    by (simp add: filter_empty_conv)
  then have "inv_lists (filter (\<lambda>b. bId b \<noteq> i) (batteries s)) (rentals s)"
    using assms unfolding lifecycle_inv_def by (intro inv_delete_battery)
  then show ?thesis
    by (simp add: s' lifecycle_inv_def)
qed

lemma customer_routes_inv:
  "lifecycle_inv (snd (createCustomer newId n ph a s)) = lifecycle_inv s"
  "lifecycle_inv (snd (updateCustomer i n ph a cr s)) = lifecycle_inv s"
  "lifecycle_inv (snd (deleteCustomer i s)) = lifecycle_inv s"
  by (rule lifecycle_inv_frame;
      simp add: createCustomer_def updateCustomer_def deleteCustomer_def Let_def
        split: option.splits)+

lemma createRental_inv:
  assumes "lifecycle_inv s"
  shows "lifecycle_inv (snd (createRental newId now bo co po ip s))"
proof -
  have success: "lifecycle_inv
      (s\<lparr>rentals := rentals s @ [r],
         batteries := map (\<lambda>b. if bId b = bid then b\<lparr>status := RENTED\<rparr> else b) (batteries s)\<rparr>)"
    if "findBattery bid s = Some b" "status b = AVAILABLE" "findRental (rId r) s = None"
      "batteryId r = bid" "returnDate r = None" for bid b r
  proof -
    have "b \<in> set (batteries s)" "bId b = bid"
      using that(1) unfolding findBattery_def by (rule find_Some_mem, rule find_key)
    moreover have "rId r \<notin> rId ` set (rentals s)"
      using that(3) by (simp add: findRental_def find_None_notin)
    ultimately show ?thesis
      using assms that(2,4,5) inv_rent [of "batteries s" "rentals s" b bid r]
      by (simp add: lifecycle_inv_def)
  qed
  show ?thesis
    using assms
    by (auto simp: createRental_def Let_def split: option.splits intro!: success)
qed

lemma returnBattery_inv:
  assumes "lifecycle_inv s"
  shows "lifecycle_inv (snd (returnBattery now i rd ip s))"
proof -
  have success: "lifecycle_inv
      (s\<lparr>rentals := map (\<lambda>r. if rId r = i then r\<lparr>returnDate := Some d, isPaid := p\<rparr> else r)
                       (rentals s),
         batteries := map (\<lambda>b. if bId b = batteryId rental then b\<lparr>status := AVAILABLE\<rparr> else b)
                        (batteries s)\<rparr>)"
    if "findRental i s = Some rental" "returnDate rental = None" for rental d p
  proof -
    have "rental \<in> set (rentals s)" "rId rental = i"
      using that(1) unfolding findRental_def by (rule find_Some_mem, rule find_key)
    then have "inv_lists
        (map (\<lambda>b. if bId b = batteryId rental then b\<lparr>status := AVAILABLE\<rparr> else b) (batteries s))
        (map (\<lambda>r. if rId r = i then r\<lparr>returnDate := Some d, isPaid := p\<rparr> else r) (rentals s))"
      using assms that(2) unfolding lifecycle_inv_def
      by (intro inv_return) simp_all
    then show ?thesis
      by (simp add: lifecycle_inv_def)
  qed
  show ?thesis
    using assms
    by (auto simp: returnBattery_def Let_def split: option.splits intro!: success)
qed

lemma updateRentalPayment_inv:
  assumes "lifecycle_inv s"
  shows "lifecycle_inv (snd (updateRentalPayment i ip s))"
proof -
  have "inv_lists (batteries s) (map (\<lambda>r. if rId r = i then r\<lparr>isPaid := b\<rparr> else r) (rentals s))"
    for b
    using assms unfolding lifecycle_inv_def by (intro inv_edit_rental) simp_all
  then show ?thesis
    using assms
    by (auto simp: updateRentalPayment_def Let_def lifecycle_inv_def split: option.splits)
qed

lemma createPayment_inv:
  assumes "lifecycle_inv s"
  shows "lifecycle_inv (snd (createPayment newId now ro co ao mo s))"
proof -
  have "inv_lists (batteries s)
          (map (\<lambda>r. if rId r = i then r\<lparr>isPaid := True\<rparr> else r) (rentals s))" for i
    using assms unfolding lifecycle_inv_def by (intro inv_edit_rental) simp_all
  then show ?thesis
    using assms
    by (auto simp: createPayment_def Let_def lifecycle_inv_def split: option.splits)
qed

lemma handle_inv:
  assumes "lifecycle_inv s" "\<not> sets_status rq"
  shows "lifecycle_inv (handle rq s)"
  using assms
  by (cases rq)
    (simp_all add: createBattery_inv updateBattery_inv deleteBattery_inv customer_routes_inv
      createRental_inv returnBattery_inv updateRentalPayment_inv createPayment_inv)

lemma lifecycle_inv_empty: "lifecycle_inv empty_db"
  by (simp add: lifecycle_inv_def inv_lists_def empty_db_def ids_distinct_def refs_ok_def
      one_open_def status_ok_def)

lemma inv_set_status:
  assumes "inv_lists bs rs" "\<And>b. bId (f b) = bId b" "\<And>b. status (f b) = st"
    "(st = RENTED) = (\<exists>r\<in>set rs. is_open i r)"
  shows "inv_lists (map (\<lambda>b. if bId b = i then f b else b) bs) rs"
proof -
  let ?h = "\<lambda>b. if bId b = i then f b else b"
  have "refs_ok (map ?h bs) rs"
    using assms(1) unfolding inv_lists_def refs_ok_def bId_image_edit [of f, OF assms(2)]
    by simp
  moreover have s: "status_ok bs rs"
    using assms(1) by (simp add: inv_lists_def)
  have "status_ok (map ?h bs) rs"
    unfolding status_ok_def
  proof (simp only: set_map ball_simps, rule ballI)
    fix b assume b: "b \<in> set bs"
    show "(status (?h b) = RENTED) = (\<exists>r\<in>set rs. is_open (bId (?h b)) r)"
    proof (cases "bId b = i")
      case True
      then show ?thesis using assms(2,3,4) by simp
    next
      case False
      then show ?thesis using s b unfolding status_ok_def by simp
    qed
  qed
  ultimately show ?thesis
    using assms(1) by (simp add: inv_lists_def)
qed

lemma updateBattery_status_inv:
  assumes "lifecycle_inv s" "(st = RENTED) = hasOpenRental i s"
  shows "lifecycle_inv (snd (updateBattery i sn p (Some st) s))"
proof -
  have "inv_lists (map (\<lambda>b. if bId b = i then f b else b) (batteries s)) (rentals s)"
    if "\<And>b. bId (f b) = bId b" "\<And>b. status (f b) = st" for f
    using assms(1) that unfolding lifecycle_inv_def
  proof (rule inv_set_status)
    show "(st = RENTED) = (\<exists>r\<in>set (rentals s). is_open i r)"
      using assms(2) by (simp add: hasOpenRental_def is_open_def)
  qed
  then show ?thesis
    using assms(1) by (simp add: updateBattery_def Let_def lifecycle_inv_def split: option.splits)
qed

lemma handle_consistent_inv:
  assumes "lifecycle_inv s" "status_consistent rq s"
  shows "lifecycle_inv (handle rq s)"
proof (cases "sets_status rq")
  case False
  with assms(1) show ?thesis by (rule handle_inv)
next
  case True
  then obtain i sn p st where "rq = UpdateBattery i sn p (Some st)"
    by (cases rq) auto
  then show ?thesis
    using assms by (simp add: updateBattery_status_inv)
qed

lemma fold_handle_consistent_inv:
  assumes "lifecycle_inv s" "consistent_run rqs s"
  shows "lifecycle_inv (fold handle rqs s)"
  using assms by (induction rqs arbitrary: s) (simp_all add: handle_consistent_inv)

lemma consistent_run_no_status:
  "\<forall>rq\<in>set rqs. \<not> sets_status rq \<Longrightarrow> consistent_run rqs s"
proof (induction rqs arbitrary: s)
  case Nil
  then show ?case by simp
next
  case (Cons rq rqs)
  then have "\<not> sets_status rq" by simp
  then have "status_consistent rq s'" for s'
    by (cases rq) auto
  then show ?case using Cons by simp
qed

text \<open>
  A battery update that supplies a status writes it unchecked: a new battery set to
  RENTED has that status with no rental at all.
\<close>

theorem status_update_breaks_rented_iff_open:
  "\<not> rented_iff_open
       (run [CreateBattery ''b1'' (Some ''SN-1'') (Some 50000),
             UpdateBattery ''b1'' None None (Some RENTED)])"
  by (simp add: run_def createBattery_def updateBattery_def empty_db_def findBattery_def
      rented_iff_open_def hasOpenRental_def Let_def)

text \<open>
  C2. In every state reached from the empty database by a consistent run of the mutating
  requests, each battery is RENTED exactly when a rental that references it has no
  returnDate. A run in which no battery update supplies a status is consistent.
\<close>

theorem rented_iff_open_along_runs:
  "(consistent_run rqs empty_db \<longrightarrow> rented_iff_open (run rqs))
   \<and> ((\<forall>rq\<in>set rqs. \<not> sets_status rq) \<longrightarrow> consistent_run rqs empty_db)"
proof (intro conjI impI)
  assume "consistent_run rqs empty_db"
  with lifecycle_inv_empty have "lifecycle_inv (run rqs)"
    unfolding run_def by (rule fold_handle_consistent_inv)
  then have "status_ok (batteries (run rqs)) (rentals (run rqs))"
    by (simp add: lifecycle_inv_def inv_lists_def)
  then show "rented_iff_open (run rqs)"
    by (simp add: rented_iff_open_def hasOpenRental_def status_ok_def is_open_def)
next
  assume "\<forall>rq\<in>set rqs. \<not> sets_status rq"
  then show "consistent_run rqs empty_db"
    by (rule consistent_run_no_status)
qed

lemma run_rent:
  "run rent_run
     = \<lparr>batteries = [battery_b1\<lparr>status := RENTED\<rparr>], customers = [alice],
        rentals = [rental_B], payments = []\<rparr>"
  by (simp add: run_def rent_run_def register_run_def empty_db_def createBattery_def createCustomer_def
      createRental_def findBattery_def findCustomer_def findRental_def Let_def
      battery_b1_def alice_def rental_B_def)

lemma run_sample: "run sample_run = db_final"
  using rating_formula [of 1 2] rating_formula [of 1 3]
  by (simp add: run_def sample_run_def rent_run_def register_run_def db_final_def empty_db_def createBattery_def
      createCustomer_def createRental_def createPayment_def returnBattery_def
      findBattery_def findCustomer_def findRental_def Let_def rentalPayments_def totalPaid_def
      updateCustomerCreditRating_def customerRentals_def addRentalPoints_def setCreditRating_def
      battery_b1_def alice_def rental_C_def full_payment_def day_def
      Number_Decimal_values f64_values toDecimal2_values)

theorem rented_iff_open_along_runs_witness:
  "rented_iff_open (run rent_run)
   \<and> map status (batteries (run rent_run)) = [RENTED]
   \<and> map returnDate (rentals (run rent_run)) = [None]
   \<and> rented_iff_open (run sample_run)
   \<and> map status (batteries (run sample_run)) = [AVAILABLE]
   \<and> map returnDate (rentals (run sample_run)) = [Some (5 * day)]
   \<and> rented_iff_open (run maintenance_run)
   \<and> map status (batteries (run maintenance_run)) = [MAINTENANCE]"
proof -
  have 1: "rented_iff_open (run rent_run)"
    using rented_iff_open_along_runs [of rent_run] by (simp add: rent_run_def register_run_def)
  have 2: "rented_iff_open (run sample_run)"
    using rented_iff_open_along_runs [of sample_run]
    by (simp add: sample_run_def rent_run_def register_run_def)
  have m: "run maintenance_run
      = \<lparr>batteries = [battery_b1\<lparr>status := MAINTENANCE\<rparr>], customers = [],
         rentals = [], payments = []\<rparr>"
    by (simp add: run_def maintenance_run_def empty_db_def createBattery_def updateBattery_def
        findBattery_def truthy_str_def Let_def battery_b1_def)
  have "consistent_run maintenance_run empty_db"
    by (simp add: maintenance_run_def empty_db_def createBattery_def findBattery_def
        hasOpenRental_def Let_def)
  then have 3: "rented_iff_open (run maintenance_run)"
    using rented_iff_open_along_runs [of maintenance_run] by simp
  show ?thesis
    using 1 2 3 by (simp add: run_rent run_sample m db_final_def battery_b1_def rental_B_def
        rental_C_def)
qed

section \<open>The sources of a customer's rating\<close>





























text \<open>
  A supplied rating beyond 32 bits is refused with nothing written, and the rating
  \<open>10^21\<close>, which \<^verbatim>\<open>parseInt\<close> reads as \<^verbatim>\<open>1e+21\<close>, is stored as 1.
\<close>

lemma parseInt_large:
  "parseInt (f64 3000000000) = 3000000000" "parseInt (f64 1000000000000000000000) = 1"
  by code_simp+

lemma customer_update_large_rating:
  "updateCustomer ''c1'' None None None (Some 3000000000) db_A
     = (Inl (HttpError 500 ''Failed to update customer''), db_A)
   \<and> map creditRating
        (customers (snd (updateCustomer ''c1'' None None None (Some (10 ^ 21)) db_A))) = [1]"
  by (simp add: updateCustomer_def db_A_def alice_def findCustomer_def truthy_str_def
      parseInt_large fitsInt32_def Let_def)




section \<open>Customers without rentals\<close>

lemma customerRentals_empty_iff:
  "(customerRentals i s = []) = (i \<notin> set (map customerId (rentals s)))"
  by (auto simp: customerRentals_def filter_empty_conv)

lemma unrented_mono:
  assumes "unrented_rated_3 s" "customers s' = customers s"
    "set (map customerId (rentals s)) \<subseteq> set (map customerId (rentals s'))"
  shows "unrented_rated_3 s'"
  unfolding unrented_rated_3_def
proof (intro ballI impI)
  fix c assume c: "c \<in> set (customers s')" "customerRentals (cId c) s' = []"
  then have "cId c \<notin> set (map customerId (rentals s))"
    using assms(3) unfolding customerRentals_empty_iff by blast
  then have "customerRentals (cId c) s = []"
    by (simp add: customerRentals_empty_iff)
  then show "creditRating c = 3"
    using assms(1,2) c(1) unfolding unrented_rated_3_def by simp
qed

lemma unrented_same:
  assumes "unrented_rated_3 s" "customers s' = customers s" "rentals s' = rentals s"
  shows "unrented_rated_3 s'"
  using assms(1,2) by (rule unrented_mono) (simp add: assms(3))

lemma unrented_recompute:
  assumes "unrented_rated_3 s"
  shows "unrented_rated_3 (updateCustomerCreditRating cid s)"
proof (cases "customerRentals cid s = []")
  case True
  then show ?thesis using assms by (simp add: updateCustomerCreditRating_def)
next
  case False
  have "unrented_rated_3 (setCreditRating cid v s)" for v
    unfolding unrented_rated_3_def
  proof (intro ballI impI)
    fix c assume c: "c \<in> set (customers (setCreditRating cid v s))"
      "customerRentals (cId c) (setCreditRating cid v s) = []"
    then have e: "customerRentals (cId c) s = []" by simp
    then have "cId c \<noteq> cid" using False by auto
    then have "c \<in> set (customers s)"
      using c(1) by (auto simp: setCreditRating_def)
    then show "creditRating c = 3"
      using assms e unfolding unrented_rated_3_def by blast
  qed
  then show ?thesis
    using False by (simp add: updateCustomerCreditRating_def Let_def)
qed

lemma recomputed_afterI:
  "customers mid = customers s
   \<Longrightarrow> map customerId (rentals mid) = map customerId (rentals s)
   \<Longrightarrow> recomputed_after s (updateCustomerCreditRating cid mid)"
  unfolding recomputed_after_def by blast

lemma returnBattery_after:
  "snd (returnBattery now i rd ip s) = s \<or> recomputed_after s (snd (returnBattery now i rd ip s))"
  by (simp add: returnBattery_def Let_def recomputed_afterI split: option.splits)

lemma updateRentalPayment_after:
  "snd (updateRentalPayment i ip s) = s \<or> recomputed_after s (snd (updateRentalPayment i ip s))"
  by (simp add: updateRentalPayment_def Let_def recomputed_afterI split: option.splits)

lemma createPayment_after:
  "snd (createPayment newId now r c a m s) = s
   \<or> recomputed_after s (snd (createPayment newId now r c a m s))"
  by (simp add: createPayment_def Let_def recomputed_afterI split: option.splits)

lemma unrented_after:
  assumes "unrented_rated_3 s" "s' = s \<or> recomputed_after s s'"
  shows "unrented_rated_3 s'"
proof -
  have "unrented_rated_3 (updateCustomerCreditRating cid mid)"
    if "customers mid = customers s" "map customerId (rentals mid) = map customerId (rentals s)"
    for cid mid
  proof -
    have "unrented_rated_3 mid"
      using assms(1) that(1) by (rule unrented_mono) (simp add: that(2))
    then show ?thesis by (rule unrented_recompute)
  qed
  then show ?thesis
    using assms unfolding recomputed_after_def by blast
qed

lemma unrented_createCustomer:
  assumes "unrented_rated_3 s"
  shows "unrented_rated_3 (snd (createCustomer newId n ph a s))"
proof -
  have "unrented_rated_3 (s\<lparr>customers := customers s @ [c]\<rparr>)" if "creditRating c = 3" for c
    using assms that by (auto simp: unrented_rated_3_def customerRentals_def)
  then show ?thesis
    using assms by (simp add: createCustomer_def Let_def split: option.splits)
qed

lemma unrented_updateCustomer:
  assumes "unrented_rated_3 s"
  shows "unrented_rated_3 (snd (updateCustomer i n ph a None s))"
proof -
  have "unrented_rated_3 (s\<lparr>customers := map (\<lambda>c. if cId c = i then f c else c) (customers s)\<rparr>)"
    if "\<And>c. cId (f c) = cId c" "\<And>c. creditRating (f c) = creditRating c" for f
    using assms that by (auto simp: unrented_rated_3_def customerRentals_def)
  then show ?thesis
    using assms by (simp add: updateCustomer_def Let_def split: option.splits)
qed

lemma unrented_deleteCustomer:
  assumes "unrented_rated_3 s"
  shows "unrented_rated_3 (snd (deleteCustomer i s))"
proof -
  have "unrented_rated_3 (s\<lparr>customers := filter P (customers s)\<rparr>)" for P
    using assms by (auto simp: unrented_rated_3_def customerRentals_def)
  then show ?thesis
    using assms by (simp add: deleteCustomer_def split: option.splits)
qed

lemma unrented_handle:
  assumes "unrented_rated_3 s" "\<not> sets_rating rq"
  shows "unrented_rated_3 (handle rq s)"
proof (cases rq)
  case (CreateBattery newId sn p)
  have "customers (snd (createBattery newId sn p s)) = customers s"
    "rentals (snd (createBattery newId sn p s)) = rentals s"
    by (simp_all add: createBattery_def Let_def split: option.splits)
  with assms(1) show ?thesis
    unfolding CreateBattery handle.simps by (rule unrented_same)
next
  case (UpdateBattery i sn p st)
  have "customers (snd (updateBattery i sn p st s)) = customers s"
    "rentals (snd (updateBattery i sn p st s)) = rentals s"
    by (simp_all add: updateBattery_def Let_def split: option.splits)
  with assms(1) show ?thesis
    unfolding UpdateBattery handle.simps by (rule unrented_same)
next
  case (DeleteBattery i)
  have "customers (snd (deleteBattery i s)) = customers s"
    "rentals (snd (deleteBattery i s)) = rentals s"
    by (simp_all add: deleteBattery_def split: option.splits)
  with assms(1) show ?thesis
    unfolding DeleteBattery handle.simps by (rule unrented_same)
next
  case (CreateCustomer newId n ph a)
  show ?thesis
    unfolding CreateCustomer handle.simps using assms(1) by (rule unrented_createCustomer)
next
  case (UpdateCustomer i n ph a cr)
  then have "cr = None" using assms(2) by simp
  then show ?thesis
    unfolding UpdateCustomer handle.simps using assms(1) by (simp add: unrented_updateCustomer)
next
  case (DeleteCustomer i)
  show ?thesis
    unfolding DeleteCustomer handle.simps using assms(1) by (rule unrented_deleteCustomer)
next
  case (CreateRental newId now b c p ip)
  have "customers (snd (createRental newId now b c p ip s)) = customers s"
    "set (map customerId (rentals s))
       \<subseteq> set (map customerId (rentals (snd (createRental newId now b c p ip s))))"
    by (auto simp: createRental_def Let_def split: option.splits)
  with assms(1) show ?thesis
    unfolding CreateRental handle.simps by (rule unrented_mono)
next
  case (ReturnBattery now i rd ip)
  show ?thesis
    unfolding ReturnBattery handle.simps
    using assms(1) returnBattery_after by (rule unrented_after)
next
  case (UpdateRentalPayment i ip)
  show ?thesis
    unfolding UpdateRentalPayment handle.simps
    using assms(1) updateRentalPayment_after by (rule unrented_after)
next
  case (CreatePayment newId now r c a m)
  show ?thesis
    unfolding CreatePayment handle.simps
    using assms(1) createPayment_after by (rule unrented_after)
qed

lemma unrented_fold:
  assumes "unrented_rated_3 s" "\<forall>rq\<in>set rqs. \<not> sets_rating rq"
  shows "unrented_rated_3 (fold handle rqs s)"
  using assms by (induction rqs arbitrary: s) (simp_all add: unrented_handle)

lemma unrented_empty: "unrented_rated_3 empty_db"
  by (simp add: unrented_rated_3_def empty_db_def)

text \<open>
  A customer update that supplies a creditRating overwrites the rating of a customer who
  has never rented: after it alice has no rental and is rated 1.
\<close>

theorem customer_update_overwrites_default:
  "rentals (run
      [CreateCustomer ''c1'' (Some ''Alice'') (Some ''0700'') (Some ''Main St''),
       UpdateCustomer ''c1'' None None None (Some 1)]) = []
   \<and> map creditRating (customers (run
      [CreateCustomer ''c1'' (Some ''Alice'') (Some ''0700'') (Some ''Main St''),
       UpdateCustomer ''c1'' None None None (Some 1)])) = [1]
   \<and> \<not> unrented_rated_3 (run
      [CreateCustomer ''c1'' (Some ''Alice'') (Some ''0700'') (Some ''Main St''),
       UpdateCustomer ''c1'' None None None (Some 1)])"
  by (simp add: run_def createCustomer_def updateCustomer_def empty_db_def findCustomer_def
      truthy_str_def unrented_rated_3_def customerRentals_def parseInt_values fitsInt32_def
      Let_def)

text \<open>
  C8. For a customer with no rentals the recomputation returns the database as it is,
  so the customer's rating and every other field stay as they were. A customer is
  created with rating 3, and recomputing for the new customer while it has no rentals
  leaves its row, the rating 3 included, as created. Along a run in which no customer
  update supplies a creditRating, every customer without rentals is rated 3.
\<close>

theorem zero_rentals_noop:
  "(customerRentals cid s = [] \<longrightarrow> updateCustomerCreditRating cid s = s)
   \<and> (\<forall>c s'. createCustomer newId n ph a s = (Inr c, s') \<longrightarrow>
        creditRating c = 3 \<and> findCustomer newId s' = Some c
        \<and> (customerRentals newId s' = [] \<longrightarrow>
             findCustomer newId (updateCustomerCreditRating newId s') = Some c))
   \<and> ((\<forall>rq\<in>set rqs. \<not> sets_rating rq) \<longrightarrow> unrented_rated_3 (run rqs))"
proof (intro conjI allI impI)
  assume "customerRentals cid s = []"
  then show "updateCustomerCreditRating cid s = s"
    by (simp add: updateCustomerCreditRating_def)
next
  fix c s'
  assume ok: "createCustomer newId n ph a s = (Inr c, s')"
  show "creditRating c = 3"
    using ok by (auto simp: createCustomer_def Let_def split: option.splits if_splits)
  have "findCustomer newId s = None" "s' = s\<lparr>customers := customers s @ [c]\<rparr>" "cId c = newId"
    using ok by (auto simp: createCustomer_def Let_def split: option.splits if_splits)
  then show found: "findCustomer newId s' = Some c"
    by (simp add: findCustomer_def find_append_fresh)
  assume "customerRentals newId s' = []"
  then show "findCustomer newId (updateCustomerCreditRating newId s') = Some c"
    using found by (simp add: updateCustomerCreditRating_def)
next
  assume "\<forall>rq\<in>set rqs. \<not> sets_rating rq"
  with unrented_empty show "unrented_rated_3 (run rqs)"
    unfolding run_def by (rule unrented_fold)
qed

theorem zero_rentals_noop_witness:
  "map creditRating (customers (updateCustomerCreditRating ''c1''
     (snd (createCustomer ''c1'' (Some ''Alice'') (Some ''0700'') (Some ''Main St'') empty_db))))
   = [3]
   \<and> unrented_rated_3 (run register_run)
   \<and> map creditRating (customers (run register_run)) = [3]
   \<and> rentals (run register_run) = []"
proof -
  have ok: "createCustomer ''c1'' (Some ''Alice'') (Some ''0700'') (Some ''Main St'') empty_db
              = (Inr alice, empty_db\<lparr>customers := [alice]\<rparr>)"
    by (simp add: createCustomer_def empty_db_def findCustomer_def alice_def Let_def)
  have none: "customerRentals ''c1'' (empty_db\<lparr>customers := [alice]\<rparr>) = []"
    by (simp add: customerRentals_def empty_db_def)
  from zero_rentals_noop [where s = empty_db and newId = "''c1''", THEN conjunct2, THEN conjunct1,
      rule_format, OF ok]
  have "creditRating alice = 3"
    and "findCustomer ''c1'' (updateCustomerCreditRating ''c1'' (empty_db\<lparr>customers := [alice]\<rparr>))
           = Some alice"
    using none by simp_all
  moreover have "updateCustomerCreditRating ''c1'' (empty_db\<lparr>customers := [alice]\<rparr>)
      = empty_db\<lparr>customers := [alice]\<rparr>"
    using zero_rentals_noop [where s = "empty_db\<lparr>customers := [alice]\<rparr>" and cid = "''c1''",
        THEN conjunct1] none by simp
  ultimately have 1: "map creditRating (customers (updateCustomerCreditRating ''c1''
     (snd (createCustomer ''c1'' (Some ''Alice'') (Some ''0700'') (Some ''Main St'') empty_db))))
   = [3]"
    by (simp add: ok)
  have 2: "unrented_rated_3 (run register_run)"
    using zero_rentals_noop [where rqs = register_run, THEN conjunct2, THEN conjunct2]
    by (simp add: register_run_def)
  note 3 = run_register
  show ?thesis
    using 1 2 by (simp add: 3 alice_def)
qed

end
